theory Spec2Isabelle
  imports Complex_Main "HOL-Library.AList"
begin

section \<open>Strings and timeframes\<close>

text \<open>
  A JavaScript string is modelled by its UTF-8 encoding, a list of bytes. \<open>toUpperCase\<close>
  acts on the ASCII letters, which is all that the timeframe and symbol comparisons of the
  services look at: no character outside ASCII has one of the characters of a timeframe
  name as its upper case.
\<close>

definition upper_char :: "char \<Rightarrow> char" where
  "upper_char c =
     (let n = (of_char c :: nat) in if 97 \<le> n \<and> n \<le> 122 then char_of (n - 32) else c)"

definition toUpperCase :: "string \<Rightarrow> string" where
  "toUpperCase s = map upper_char s"

text \<open>
  \<open>String.prototype.trim\<close> removes the white space and the line terminators of
  ECMAScript from both ends: U+0009 to U+000D, U+0020, U+00A0, U+1680, U+2000 to U+200A,
  U+2028, U+2029, U+202F, U+205F, U+3000 and U+FEFF, here in their encodings.
\<close>

definition whiteSpace :: "string list" where
  "whiteSpace =
     [[CHR 0x09], [CHR 0x0A], [CHR 0x0B], [CHR 0x0C], [CHR 0x0D], [CHR 0x20],
      [CHR 0xC2, CHR 0xA0],
      [CHR 0xE1, CHR 0x9A, CHR 0x80],
      [CHR 0xE2, CHR 0x80, CHR 0x80], [CHR 0xE2, CHR 0x80, CHR 0x81],
      [CHR 0xE2, CHR 0x80, CHR 0x82], [CHR 0xE2, CHR 0x80, CHR 0x83],
      [CHR 0xE2, CHR 0x80, CHR 0x84], [CHR 0xE2, CHR 0x80, CHR 0x85],
      [CHR 0xE2, CHR 0x80, CHR 0x86], [CHR 0xE2, CHR 0x80, CHR 0x87],
      [CHR 0xE2, CHR 0x80, CHR 0x88], [CHR 0xE2, CHR 0x80, CHR 0x89],
      [CHR 0xE2, CHR 0x80, CHR 0x8A],
      [CHR 0xE2, CHR 0x80, CHR 0xA8], [CHR 0xE2, CHR 0x80, CHR 0xA9],
      [CHR 0xE2, CHR 0x80, CHR 0xAF],
      [CHR 0xE2, CHR 0x81, CHR 0x9F],
      [CHR 0xE3, CHR 0x80, CHR 0x80],
      [CHR 0xEF, CHR 0xBB, CHR 0xBF]]"

text \<open>One of the given byte sequences taken from the head of a string, if it starts with one.\<close>

definition stripOne :: "string list \<Rightarrow> string \<Rightarrow> string option" where
  "stripOne ws s =
     (case filter (\<lambda>w. take (length w) s = w) ws of
        [] \<Rightarrow> None
      | w # more_ws \<Rightarrow> Some (drop (length w) s))"

function stripAll :: "string list \<Rightarrow> string \<Rightarrow> string" where
  "stripAll ws s =
     (case stripOne ws s of
        None \<Rightarrow> s
      | Some rest \<Rightarrow> if length rest < length s then stripAll ws rest else s)"
  by pat_completeness auto
termination
  by (relation "measure (\<lambda>(ws, s). length s)") auto

declare stripAll.simps [simp del]

definition trim :: "string \<Rightarrow> string" where
  "trim s = rev (stripAll (map rev whiteSpace) (rev (stripAll whiteSpace s)))"

text \<open>
  A byte below the letters or above them: upper-casing leaves it as it is and maps no
  other byte to it. The bytes of white space are of this kind.
\<close>

definition caseless :: "char \<Rightarrow> bool" where
  "caseless b = ((of_char b :: nat) < 65 \<or> 122 < (of_char b :: nat))"

subsection \<open>cache.ts: TTL per timeframe\<close>

text \<open>\<open>TIMEFRAME_TTL\<close>: the object literal of cache.ts, a lookup that is undefined
  (\<open>None\<close>) for every other key.\<close>

definition TIMEFRAME_TTL :: "string \<Rightarrow> nat option" where
  "TIMEFRAME_TTL tf =
     (if tf = ''5Y'' then Some (24 * 60 * 60)
      else if tf = ''1Y'' then Some (12 * 60 * 60)
      else if tf = ''YTD'' then Some (6 * 60 * 60)
      else if tf = ''1M'' then Some (3 * 60 * 60)
      else if tf = ''1W'' then Some (1 * 60 * 60)
      else None)"

text \<open>\<open>CacheService.getTTLForTimeframe\<close>; \<open>defaultTTL\<close> is the field of the service.\<close>

definition getTTLForTimeframe :: "nat \<Rightarrow> string \<Rightarrow> nat" where
  "getTTLForTimeframe defaultTTL timeframe =
     (case TIMEFRAME_TTL (toUpperCase timeframe) of Some t \<Rightarrow> t | None \<Rightarrow> defaultTTL)"


section \<open>JavaScript values\<close>

text \<open>
  A JavaScript \<open>number\<close> is a double: \<open>NaN\<close>, an infinity or a finite value, kept as the
  real it denotes. The sign of zero is not modelled.
\<close>

datatype jsnum = NaN | PosInf | NegInf | Fin real

definition Math_floor :: "jsnum \<Rightarrow> jsnum" where
  "Math_floor n = (case n of Fin x \<Rightarrow> Fin (of_int \<lfloor>x\<rfloor>) | _ \<Rightarrow> n)"

text \<open>\<open>Math.round\<close> rounds halves towards plus infinity.\<close>

definition Math_round :: "jsnum \<Rightarrow> jsnum" where
  "Math_round n = (case n of Fin x \<Rightarrow> Fin (of_int \<lfloor>x + 1 / 2\<rfloor>) | _ \<Rightarrow> n)"

text \<open>
  A value read from a JSON payload. \<open>JObject s\<close> is an object or an array, with the string
  \<open>s\<close> that its conversion to a primitive gives.
\<close>

datatype jsval = Undefined | Null | JBool bool | JNumber jsnum | JString string | JObject string

text \<open>A JSON object: the value of each property, \<open>Undefined\<close> for the properties it lacks.\<close>

type_synonym json_object = "string \<Rightarrow> jsval"

definition truthy :: "jsval \<Rightarrow> bool" where
  "truthy v =
     (case v of
        Undefined \<Rightarrow> False
      | Null \<Rightarrow> False
      | JBool b \<Rightarrow> b
      | JNumber n \<Rightarrow> n \<noteq> NaN \<and> n \<noteq> Fin 0
      | JString s \<Rightarrow> s \<noteq> []
      | JObject s \<Rightarrow> True)"

text \<open>The nullish coalescing operator \<open>??\<close>.\<close>

definition nullish :: "jsval \<Rightarrow> bool" where
  "nullish v = (v = Null \<or> v = Undefined)"

definition coalesce :: "jsval \<Rightarrow> jsval \<Rightarrow> jsval" where
  "coalesce a b = (if nullish a then b else a)"

text \<open>Exceptions, with the message that \<open>error.message\<close> reads.\<close>

datatype exn =
    StockServiceError string string "string option"
  | DataFetcherError string string "nat option"
  | RangeError string
  | TypeError string

fun getErrorMessage :: "exn \<Rightarrow> string" where
  "getErrorMessage (StockServiceError m c s) = m"
| "getErrorMessage (DataFetcherError m c st) = m"
| "getErrorMessage (RangeError m) = m"
| "getErrorMessage (TypeError m) = m"

text \<open>
  What the repository does not define is a parameter of the model:
  \<^item> \<open>parseISO\<close> of date-fns on a string (\<open>None\<close> is an Invalid Date);
  \<^item> \<open>parseISO\<close> on an argument that is not a string, which depends on the version of
    date-fns: version 2 gives an Invalid Date (\<open>None\<close> here), versions 3 and 4 throw a
    TypeError (\<open>Some\<close> of its message);
  \<^item> the conversion of a string to a number that \<open>Number\<close> applies;
  \<^item> the rounding of IEEE 754 that ends every arithmetic operation on doubles: the double
    nearest to the exact result, an infinity when it is out of range;
  \<^item> the limit of the engine on the arguments of a call: \<open>f(...xs)\<close> with \<open>n\<close> elements
    throws a RangeError (\<open>Some\<close> of its message) when the stack does not hold them.
\<close>

record library =
  parseISO :: "string \<Rightarrow> int option"
  parseISO_nonstring :: "jsval \<Rightarrow> string option"
  StringToNumber :: "string \<Rightarrow> jsnum"
  round_double :: "real \<Rightarrow> jsnum"
  spread_fault :: "nat \<Rightarrow> string option"

text \<open>
  The operators \<open>-\<close>, \<open>*\<close> and \<open>/\<close> on numbers: on finite operands the exact result,
  rounded; on the others the special cases of IEEE 754.
\<close>

fun js_sub :: "'a library_scheme \<Rightarrow> jsnum \<Rightarrow> jsnum \<Rightarrow> jsnum" where
  "js_sub L (Fin a) (Fin b) = round_double L (a - b)"
| "js_sub L NaN y = NaN"
| "js_sub L x NaN = NaN"
| "js_sub L PosInf PosInf = NaN"
| "js_sub L NegInf NegInf = NaN"
| "js_sub L PosInf y = PosInf"
| "js_sub L NegInf y = NegInf"
| "js_sub L (Fin a) PosInf = NegInf"
| "js_sub L (Fin a) NegInf = PosInf"

fun js_mul :: "'a library_scheme \<Rightarrow> jsnum \<Rightarrow> jsnum \<Rightarrow> jsnum" where
  "js_mul L (Fin a) (Fin b) = round_double L (a * b)"
| "js_mul L NaN y = NaN"
| "js_mul L x NaN = NaN"
| "js_mul L PosInf (Fin b) = (if b = 0 then NaN else if 0 < b then PosInf else NegInf)"
| "js_mul L NegInf (Fin b) = (if b = 0 then NaN else if 0 < b then NegInf else PosInf)"
| "js_mul L (Fin a) PosInf = (if a = 0 then NaN else if 0 < a then PosInf else NegInf)"
| "js_mul L (Fin a) NegInf = (if a = 0 then NaN else if 0 < a then NegInf else PosInf)"
| "js_mul L PosInf PosInf = PosInf"
| "js_mul L NegInf NegInf = PosInf"
| "js_mul L PosInf NegInf = NegInf"
| "js_mul L NegInf PosInf = NegInf"

fun js_div :: "'a library_scheme \<Rightarrow> jsnum \<Rightarrow> jsnum \<Rightarrow> jsnum" where
  "js_div L (Fin a) (Fin b) =
     (if b \<noteq> 0 then round_double L (a / b)
      else if a = 0 then NaN else if 0 < a then PosInf else NegInf)"
| "js_div L NaN y = NaN"
| "js_div L x NaN = NaN"
| "js_div L (Fin a) PosInf = Fin 0"
| "js_div L (Fin a) NegInf = Fin 0"
| "js_div L PosInf (Fin b) = (if 0 \<le> b then PosInf else NegInf)"
| "js_div L NegInf (Fin b) = (if 0 \<le> b then NegInf else PosInf)"
| "js_div L x y = NaN"

definition Math_abs :: "jsnum \<Rightarrow> jsnum" where
  "Math_abs n = (case n of Fin x \<Rightarrow> Fin \<bar>x\<bar> | NegInf \<Rightarrow> PosInf | _ \<Rightarrow> n)"

text \<open>\<open>Number(b)\<close> of a BigInt: the double nearest to it.\<close>

definition Number_of_BigInt :: "'a library_scheme \<Rightarrow> int \<Rightarrow> jsnum" where
  "Number_of_BigInt L b = round_double L (real_of_int b)"

text \<open>\<open>Number(value)\<close>.\<close>

definition js_Number :: "'a library_scheme \<Rightarrow> jsval \<Rightarrow> jsnum" where
  "js_Number L v =
     (case v of
        Undefined \<Rightarrow> NaN
      | Null \<Rightarrow> Fin 0
      | JBool b \<Rightarrow> Fin (if b then 1 else 0)
      | JNumber n \<Rightarrow> n
      | JString s \<Rightarrow> StringToNumber L s
      | JObject s \<Rightarrow> StringToNumber L s)"

text \<open>\<open>BigInt(n)\<close> throws a RangeError unless \<open>n\<close> is an integer.\<close>

definition BigInt :: "jsnum \<Rightarrow> exn + int" where
  "BigInt n =
     (case n of
        Fin x \<Rightarrow> if of_int \<lfloor>x\<rfloor> = x then Inr \<lfloor>x\<rfloor>
                 else Inl (RangeError ''The number cannot be converted to a BigInt because it is not an integer'')
      | _ \<Rightarrow> Inl (RangeError ''The number cannot be converted to a BigInt because it is not an integer''))"

text \<open>
  The valid date that \<open>parseISO\<close> gives for a value, if it gives one: for anything but a
  string it gives an Invalid Date or throws.
\<close>

definition parseISO_value :: "'a library_scheme \<Rightarrow> jsval \<Rightarrow> int option" where
  "parseISO_value L v = (case v of JString s \<Rightarrow> parseISO L s | _ \<Rightarrow> None)"

definition msPerDay :: int where
  "msPerDay = 1000 * 60 * 60 * 24"

section \<open>fundamentalFetcher.ts\<close>

record FundamentalRecord =
  symbol :: string
  date :: int
  peRatio :: jsval
  priceToFcf :: jsval
  fcf :: "int option"
  eps :: jsval
  revenue :: "int option"
  revenueGrowthYoy :: "jsnum option"
  roe :: jsval
  debtToEquity :: jsval
  period :: jsval

text \<open>
  \<open>x != null ? BigInt(Math.round(x)) : null\<close>, as \<open>mergeFundamentals\<close> computes
  \<open>revenue\<close> and \<open>fcf\<close>: the conversion throws when the rounded number is not an integer.
\<close>

definition roundedBigInt :: "'a library_scheme \<Rightarrow> jsval \<Rightarrow> exn + int option" where
  "roundedBigInt L v =
     (if nullish v then Inr None
      else case BigInt (Math_round (js_Number L v)) of
             Inl e \<Rightarrow> Inl e
           | Inr n \<Rightarrow> Inr (Some n))"

text \<open>\<open>income?.p\<close> for the optional income statement found in the map.\<close>

definition optField :: "json_object option \<Rightarrow> string \<Rightarrow> jsval" where
  "optField income p = (case income of None \<Rightarrow> Undefined | Some obj \<Rightarrow> obj p)"

text \<open>The first loop of \<open>mergeFundamentals\<close>: the income map keyed by date.\<close>

definition buildIncomeMap :: "json_object list \<Rightarrow> (jsval \<rightharpoonup> json_object)" where
  "buildIncomeMap incomeData =
     fold (\<lambda>item m. if truthy (item ''date'') then m(item ''date'' \<mapsto> item) else m)
       incomeData Map.empty"

text \<open>
  The loop over the key metrics. A record whose date is missing or does not parse is
  skipped; an exception of \<open>BigInt\<close> leaves the loop and the function.
\<close>

fun keyMetricRecords ::
  "'a library_scheme \<Rightarrow> string \<Rightarrow> (jsval \<rightharpoonup> json_object) \<Rightarrow> json_object list
     \<Rightarrow> exn + FundamentalRecord list" where
  "keyMetricRecords L symb incomeMap [] = Inr []"
| "keyMetricRecords L symb incomeMap (km # rest) =
     (if \<not> truthy (km ''date'') then keyMetricRecords L symb incomeMap rest
      else case parseISO_value L (km ''date'') of
        None \<Rightarrow> keyMetricRecords L symb incomeMap rest
      | Some parsedDate \<Rightarrow>
          (let income = incomeMap (km ''date'') in
           case roundedBigInt L (optField income ''revenue'') of
             Inl e \<Rightarrow> Inl e
           | Inr revenue' \<Rightarrow>
           (case roundedBigInt L (km ''freeCashFlow'') of
             Inl e \<Rightarrow> Inl e
           | Inr fcf' \<Rightarrow>
           (case keyMetricRecords L symb incomeMap rest of
             Inl e \<Rightarrow> Inl e
           | Inr records \<Rightarrow>
               Inr (\<lparr> symbol = symb,
                      date = parsedDate,
                      peRatio = coalesce (km ''peRatio'') Null,
                      priceToFcf = coalesce (km ''priceToFreeCashFlowRatio'') Null,
                      fcf = fcf',
                      eps = coalesce (optField income ''epsDiluted'')
                              (coalesce (optField income ''eps'') Null),
                      revenue = revenue',
                      revenueGrowthYoy = None,
                      roe = coalesce (km ''returnOnEquity'') Null,
                      debtToEquity = coalesce (km ''debtToEquity'') Null,
                      period = coalesce (optField income ''period'') Null \<rparr> # records)))))"

text \<open>The loop over the income statements, taken when there are no key metrics.\<close>

fun incomeRecords ::
  "'a library_scheme \<Rightarrow> string \<Rightarrow> json_object list \<Rightarrow> exn + FundamentalRecord list" where
  "incomeRecords L symb [] = Inr []"
| "incomeRecords L symb (inc # rest) =
     (if \<not> truthy (inc ''date'') then incomeRecords L symb rest
      else case parseISO_value L (inc ''date'') of
        None \<Rightarrow> incomeRecords L symb rest
      | Some parsedDate \<Rightarrow>
          (case roundedBigInt L (inc ''revenue'') of
             Inl e \<Rightarrow> Inl e
           | Inr revenue' \<Rightarrow>
           (case incomeRecords L symb rest of
             Inl e \<Rightarrow> Inl e
           | Inr records \<Rightarrow>
               Inr (\<lparr> symbol = symb,
                      date = parsedDate,
                      peRatio = Null,
                      priceToFcf = Null,
                      fcf = None,
                      eps = coalesce (inc ''epsDiluted'') (coalesce (inc ''eps'') Null),
                      revenue = revenue',
                      revenueGrowthYoy = None,
                      roe = Null,
                      debtToEquity = Null,
                      period = coalesce (inc ''period'') Null \<rparr> # records))))"

text \<open>
  \<open>FundamentalFetcher.mergeFundamentals\<close>. \<open>Array.prototype.sort\<close> is stable, as
  \<open>sort_key\<close> is.
\<close>

definition mergeFundamentals ::
  "'a library_scheme \<Rightarrow> string \<Rightarrow> json_object list \<Rightarrow> json_object list
     \<Rightarrow> exn + FundamentalRecord list" where
  "mergeFundamentals L symb keyMetrics incomeData =
     (case keyMetricRecords L symb (buildIncomeMap incomeData) keyMetrics of
        Inl e \<Rightarrow> Inl e
      | Inr records \<Rightarrow>
          (if length keyMetrics = 0 \<and> length incomeData > 0
           then (case incomeRecords L symb incomeData of
                   Inl e \<Rightarrow> Inl e
                 | Inr extra \<Rightarrow> Inr (sort_key date (records @ extra)))
           else Inr (sort_key date records)))"

text \<open>
  \<open>FundamentalFetcher.calculateRevenueGrowthYoy\<close>: \<open>records.map((record, index) => ...)\<close>,
  in the arithmetic of doubles.
\<close>

definition growthAt ::
  "'a library_scheme \<Rightarrow> FundamentalRecord list \<Rightarrow> nat \<Rightarrow> FundamentalRecord" where
  "growthAt L records index =
     (let record = records ! index;
          priorIndex = int index - 4
      in if priorIndex < 0 then record
         else let prior = records ! nat priorIndex
              in if revenue prior = None \<or> revenue record = None \<or> revenue prior = Some 0
                 then record
                 else let current = Number_of_BigInt L (the (revenue record));
                          previous = Number_of_BigInt L (the (revenue prior));
                          growth = js_mul L (js_div L (js_sub L current previous)
                                               (Math_abs previous)) (Fin 100)
                      in record\<lparr>revenueGrowthYoy := Some growth\<rparr>)"

definition calculateRevenueGrowthYoy ::
  "'a library_scheme \<Rightarrow> FundamentalRecord list \<Rightarrow> FundamentalRecord list" where
  "calculateRevenueGrowthYoy L records = map (growthAt L records) [0..<length records]"


section \<open>stockService.ts and dataFetcher.ts: records\<close>

text \<open>A \<open>Date\<close> is its time value, the milliseconds since the epoch (\<open>getTime\<close>).\<close>

record RatioData =
  date :: int
  ratio :: jsnum
  symbol1Price :: jsnum
  symbol2Price :: jsnum

record StockPriceData =
  date :: int
  "open" :: jsnum
  high :: jsnum
  low :: jsnum
  close :: jsnum
  volume :: int
  change :: jsnum
  changePercent :: jsnum
  vwap :: jsnum

text \<open>
  \<open>NormalizedPriceData\<close> adds the symbol. A row of table \<open>stock_prices\<close>, as Prisma
  returns it (\<open>PrismaStockPrice\<close>), has the same fields; its generated \<open>id\<close>,
  \<open>createdAt\<close> and \<open>updatedAt\<close> are read nowhere and left out.
\<close>

record NormalizedPriceData = StockPriceData +
  symbol :: string

type_synonym PrismaStockPrice = NormalizedPriceData

subsection \<open>dataFetcher.ts: validation\<close>

text \<open>\<open>DataFetcher.validateNumber\<close>.\<close>

definition validateNumber :: "'a library_scheme \<Rightarrow> jsval \<Rightarrow> jsnum \<Rightarrow> jsnum" where
  "validateNumber L value defaultValue =
     (if value = Null \<or> value = Undefined then defaultValue
      else let num = js_Number L value in if num = NaN then defaultValue else num)"

text \<open>
  The body of the loop of \<open>validateAndNormalize\<close>, for one raw record of the API:
  \<open>Inr None\<close> is a \<open>continue\<close>, \<open>Inl\<close> an exception (which the \<open>catch\<close> of the loop
  takes), \<open>Inr (Some n)\<close> the record pushed.
\<close>

definition normalizeRecord ::
  "'a library_scheme \<Rightarrow> string \<Rightarrow> json_object \<Rightarrow> exn + NormalizedPriceData option" where
  "normalizeRecord L symb record =
     (if \<not> truthy (record ''date'') then Inr None
      else case parseISO_value L (record ''date'') of
        None \<Rightarrow> Inr None
      | Some date' \<Rightarrow>
          (case BigInt (Math_floor (validateNumber L (record ''volume'') (Fin 0))) of
             Inl e \<Rightarrow> Inl e
           | Inr volume' \<Rightarrow>
               (let normalizedRecord =
                      \<lparr> date = date',
                        open = validateNumber L (record ''open'') (Fin 0),
                        high = validateNumber L (record ''high'') (Fin 0),
                        low = validateNumber L (record ''low'') (Fin 0),
                        close = validateNumber L (record ''close'') (Fin 0),
                        volume = volume',
                        change = validateNumber L (record ''change'') (Fin 0),
                        changePercent = validateNumber L (record ''changePercent'') (Fin 0),
                        vwap = validateNumber L (record ''vwap'') (Fin 0),
                        symbol = symb \<rparr>
                in if open normalizedRecord = Fin 0 \<and> high normalizedRecord = Fin 0 \<and>
                      low normalizedRecord = Fin 0 \<and> close normalizedRecord = Fin 0
                   then Inr None
                   else Inr (Some normalizedRecord))))"

text \<open>\<open>DataFetcher.validateAndNormalize\<close>.\<close>

fun validateAndNormalize ::
  "'a library_scheme \<Rightarrow> string \<Rightarrow> json_object list \<Rightarrow> NormalizedPriceData list" where
  "validateAndNormalize L symb [] = []"
| "validateAndNormalize L symb (record # rest) =
     (case normalizeRecord L symb record of
        Inr (Some normalizedRecord) \<Rightarrow> normalizedRecord # validateAndNormalize L symb rest
      | Inr None \<Rightarrow> validateAndNormalize L symb rest
      | Inl e \<Rightarrow> validateAndNormalize L symb rest)"

text \<open>
  What the specification says validation keeps: the records that have a parseable date
  and whose open, high, low and close, missing or unparseable values coerced to 0, are not
  all zero.
\<close>

definition spec_keeps :: "'a library_scheme \<Rightarrow> json_object \<Rightarrow> bool" where
  "spec_keeps L record =
     (truthy (record ''date'') \<and> parseISO_value L (record ''date'') \<noteq> None \<and>
      \<not> (validateNumber L (record ''open'') (Fin 0) = Fin 0 \<and>
         validateNumber L (record ''high'') (Fin 0) = Fin 0 \<and>
         validateNumber L (record ''low'') (Fin 0) = Fin 0 \<and>
         validateNumber L (record ''close'') (Fin 0) = Fin 0))"

text \<open>The volume of a record converts to a BigInt: it is not an infinity.\<close>

definition volume_converts :: "'a library_scheme \<Rightarrow> json_object \<Rightarrow> bool" where
  "volume_converts L record =
     (validateNumber L (record ''volume'') (Fin 0) \<noteq> PosInf \<and>
      validateNumber L (record ''volume'') (Fin 0) \<noteq> NegInf)"

text \<open>
  The record that validation stores for a raw record it keeps: the parsed date, every
  numeric field through \<open>validateNumber\<close> with default 0, the volume floored.
\<close>

definition normalized :: "'a library_scheme \<Rightarrow> string \<Rightarrow> json_object \<Rightarrow> NormalizedPriceData" where
  "normalized L symb record =
     \<lparr> date = the (parseISO_value L (record ''date'')),
       open = validateNumber L (record ''open'') (Fin 0),
       high = validateNumber L (record ''high'') (Fin 0),
       low = validateNumber L (record ''low'') (Fin 0),
       close = validateNumber L (record ''close'') (Fin 0),
       volume = (case validateNumber L (record ''volume'') (Fin 0) of Fin x \<Rightarrow> \<lfloor>x\<rfloor> | _ \<Rightarrow> 0),
       change = validateNumber L (record ''change'') (Fin 0),
       changePercent = validateNumber L (record ''changePercent'') (Fin 0),
       vwap = validateNumber L (record ''vwap'') (Fin 0),
       symbol = symb \<rparr>"

subsection \<open>stockService.ts: date keys, merge, ratio\<close>

text \<open>
  \<open>StockService.getDateKey\<close>: \<open>date.toISOString().split('T')[0]\<close> is the UTC calendar
  day of the date, written YYYY-MM-DD. The key is modelled as the number of that day
  (days since the epoch), of which the string is a one-to-one rendering.
\<close>

definition getDateKey :: "int \<Rightarrow> int" where
  "getDateKey d = d div msPerDay"

text \<open>
  A JavaScript \<open>Map\<close> keeps its keys in the order of their first insertion, and \<open>set\<close> on
  a key it has replaces the value in place: an association list under \<open>AList.update\<close>.
\<close>

definition dateMap_set ::
  "StockPriceData \<Rightarrow> (int \<times> StockPriceData) list \<Rightarrow> (int \<times> StockPriceData) list" where
  "dateMap_set item dateMap = AList.update (getDateKey (date item)) item dateMap"

subsection \<open>Auxiliary notions for the merge\<close>

text \<open>The entry that \<open>dateMap.set(key, item)\<close> stores for an item.\<close>

definition dateEntry :: "StockPriceData \<Rightarrow> int \<times> StockPriceData" where
  "dateEntry item = (getDateKey (date item), item)"

text \<open>The invariant of the map: one entry per key, each item under its own key.\<close>

definition dateKeyed :: "(int \<times> StockPriceData) list \<Rightarrow> bool" where
  "dateKeyed al = (distinct (map fst al) \<and> (\<forall>p\<in>set al. p = dateEntry (snd p)))"

definition mergedMap ::
  "StockPriceData list \<Rightarrow> StockPriceData list \<Rightarrow> (int \<times> StockPriceData) list" where
  "mergedMap oldData newData = fold dateMap_set newData (fold dateMap_set oldData [])"

text \<open>\<open>StockService.mergeAndDeduplicate\<close>.\<close>

definition mergeAndDeduplicate ::
  "StockPriceData list \<Rightarrow> StockPriceData list \<Rightarrow> StockPriceData list" where
  "mergeAndDeduplicate oldData newData =
     (let dateMap = fold dateMap_set newData (fold dateMap_set oldData []);
          merged = map snd dateMap
      in sort_key date merged)"





section \<open>The environment and the state\<close>

text \<open>
  The outcome of one request to the market data API, as \<open>fetchHistoricalData\<close> tells
  the cases apart: a response with its \<open>data\<close>, an error of axios with the status of the
  response (if there was one), its \<open>code\<close> and its message, or anything else thrown.
\<close>

datatype response_data =
    Falsy
  | BareArray "json_object list"
  | Wrapped "json_object list"
  | ErrorMessageObject
  | OtherObject
  | Primitive string

datatype http_outcome =
    Response response_data
  | AxiosError "nat option" "string option" string
  | OtherFailure string

text \<open>
  What the code cannot decide is given by the world: the configuration, the clock, the
  functions of date-fns, and an oracle for each collaborator, indexed by the number of
  interactions so far (\<open>tick\<close> of the state). \<open>http\<close> is the outcome of a request,
  \<open>db_fault\<close> the error message with which a database operation fails (if it does),
  \<open>cache_fault\<close> whether a cache operation finds the cache unavailable or fails (an
  expired entry is read as such a miss). \<open>today\<close> is
  \<open>new Date(Date.UTC(now.getFullYear(), now.getMonth(), now.getDate()))\<close>.
  \<open>decimal scale x\<close> is the number read back (\<open>Decimal.toNumber\<close>) from a column
  \<open>DECIMAL(12, scale)\<close> to which \<open>x\<close> was written; a write that the table refuses (a
  value out of the range of its column, a symbol of more than 10 characters) is a fault
  of the database.
\<close>

record world = library +
  apiKey :: string
  http :: "nat \<Rightarrow> string \<Rightarrow> int option \<Rightarrow> int option \<Rightarrow> http_outcome"
  db_fault :: "nat \<Rightarrow> string option"
  cache_fault :: "nat \<Rightarrow> bool"
  now :: int
  today :: int
  startOfYear :: "int \<Rightarrow> int"
  subDays :: "int \<Rightarrow> nat \<Rightarrow> int"
  subYears :: "int \<Rightarrow> nat \<Rightarrow> int"
  decimal :: "nat \<Rightarrow> jsnum \<Rightarrow> jsnum"

text \<open>
  The state: the rows of table \<open>stock_prices\<close>, the two families of cache entries
  (\<open>stock:history:\<close> and \<open>stock:ratio:\<close> keys; the JSON round trip of an entry is
  taken to be lossless), and the number of interactions so far.
\<close>

record state =
  db :: "PrismaStockPrice list"
  history_cache :: "string \<rightharpoonup> StockPriceData list"
  ratio_cache :: "string \<rightharpoonup> RatioData list"
  tick :: nat

definition step :: "state \<Rightarrow> state" where
  "step s = s\<lparr>tick := tick s + 1\<rparr>"

section \<open>dataFetcher.ts: fetch, save, sync\<close>

text \<open>The \<open>catch\<close> of \<open>fetchHistoricalData\<close> on an error of axios.\<close>

definition classifyAxiosError :: "nat option \<Rightarrow> string option \<Rightarrow> string \<Rightarrow> exn" where
  "classifyAxiosError status code msg =
     (if status = Some 429
      then DataFetcherError ''API rate limit exceeded. FMP free tier allows 250 calls/day.''
             ''RATE_LIMIT'' (Some 429)
      else if status = Some 401 \<or> status = Some 403
      then DataFetcherError ''Invalid API key or unauthorized access'' ''AUTH_ERROR'' status
      else if code = Some ''ECONNREFUSED'' \<or> code = Some ''ENOTFOUND''
      then DataFetcherError ''Unable to connect to FMP API. Check your network connection.''
             ''NETWORK_ERROR'' None
      else if code = Some ''ECONNABORTED''
      then DataFetcherError ''Request timed out while fetching data from FMP API''
             ''TIMEOUT'' None
      else DataFetcherError (''API request failed: '' @ msg) ''API_ERROR'' status)"

text \<open>The \<open>try\<close> block of \<open>fetchHistoricalData\<close> on a response.\<close>

definition readResponse :: "string \<Rightarrow> response_data \<Rightarrow> exn + json_object list" where
  "readResponse normalizedSymbol d =
     (case d of
        Falsy \<Rightarrow>
          Inl (DataFetcherError (''No data returned for symbol: '' @ normalizedSymbol)
                 ''EMPTY_RESPONSE'' None)
      | BareArray historicalData \<Rightarrow> Inr historicalData
      | Wrapped historicalData \<Rightarrow> Inr historicalData
      | ErrorMessageObject \<Rightarrow>
          Inl (DataFetcherError (''Invalid symbol or no historical data: '' @ normalizedSymbol)
                 ''INVALID_SYMBOL'' None)
      | OtherObject \<Rightarrow>
          Inl (DataFetcherError (''Unexpected API response format for: '' @ normalizedSymbol)
                 ''INVALID_RESPONSE'' None)
      | Primitive m \<Rightarrow>
          Inl (DataFetcherError (''Unexpected error: '' @ m) ''UNKNOWN_ERROR'' None))"

text \<open>\<open>DataFetcher.fetchHistoricalData\<close>: one request, no retry.\<close>

definition fetchHistoricalData ::
  "world \<Rightarrow> state \<Rightarrow> string \<Rightarrow> int option \<Rightarrow> int option \<Rightarrow> (exn + json_object list) \<times> state" where
  "fetchHistoricalData W s symb from' to' =
     (let normalizedSymbol = trim (toUpperCase symb) in
      if normalizedSymbol = [] then
        (Inl (DataFetcherError ''Symbol is required'' ''INVALID_SYMBOL'' None), s)
      else if apiKey W = [] then
        (Inl (DataFetcherError ''FMP API key not configured'' ''NO_API_KEY'' None), s)
      else
        (case http W (tick s) normalizedSymbol from' to' of
           Response d \<Rightarrow> (readResponse normalizedSymbol d, step s)
         | AxiosError status code msg \<Rightarrow> (Inl (classifyAxiosError status code msg), step s)
         | OtherFailure m \<Rightarrow>
             (Inl (DataFetcherError (''Unexpected error: '' @ m) ''UNKNOWN_ERROR'' None), step s)))"

text \<open>
  Column \<open>date\<close> of \<open>stock_prices\<close> is a \<open>DATE\<close>: a timestamp written to it is stored
  as its UTC calendar day and read back as that day's midnight.
\<close>

definition db_date :: "int \<Rightarrow> int" where
  "db_date t = (t div msPerDay) * msPerDay"

text \<open>
  The row that table \<open>stock_prices\<close> holds for a record: the date is a \<open>DATE\<close>, the
  prices are \<open>DECIMAL(12,4)\<close> and \<open>changePercent\<close> is \<open>DECIMAL(12,6)\<close>.
\<close>

definition stored_row :: "world \<Rightarrow> NormalizedPriceData \<Rightarrow> PrismaStockPrice" where
  "stored_row W r =
     r\<lparr> date := db_date (date r),
        open := decimal W 4 (open r),
        high := decimal W 4 (high r),
        low := decimal W 4 (low r),
        close := decimal W 4 (close r),
        change := decimal W 4 (change r),
        changePercent := decimal W 6 (changePercent r),
        vwap := decimal W 4 (vwap r) \<rparr>"

text \<open>
  \<open>prisma.stockPrice.upsert\<close> on the unique key \<open>(symbol, date)\<close>: the row that has the
  key is overwritten in place, a new row is added otherwise. \<open>update\<close> and \<open>create\<close>
  carry the same values, so that the row is that of the record in both cases.
\<close>

fun upsert :: "world \<Rightarrow> NormalizedPriceData \<Rightarrow> PrismaStockPrice list \<Rightarrow> PrismaStockPrice list" where
  "upsert W r [] = [stored_row W r]"
| "upsert W r (row # rows) =
     (if symbol row = symbol r \<and> date row = db_date (date r)
      then stored_row W r # rows
      else row # upsert W r rows)"

definition batchSize :: nat where
  "batchSize = 100"

text \<open>
  The loop of \<open>saveToDatabase\<close> from index \<open>i\<close> on: each batch is one transaction, which
  writes all of its rows or fails as a whole with the error of the database.
\<close>

function saveBatches ::
  "world \<Rightarrow> state \<Rightarrow> NormalizedPriceData list \<Rightarrow> nat \<Rightarrow> nat \<Rightarrow> (exn + nat) \<times> state" where
  "saveBatches W s validatedData i savedCount =
     (if i < length validatedData then
        (let batch = take batchSize (drop i validatedData) in
         case db_fault W (tick s) of
           Some m \<Rightarrow>
             (Inl (DataFetcherError (''Database error while saving data: '' @ m)
                     ''DATABASE_ERROR'' None), step s)
         | None \<Rightarrow>
             saveBatches W (step (s\<lparr>db := fold (upsert W) batch (db s)\<rparr>)) validatedData
               (i + batchSize) (savedCount + length batch))
      else (Inr savedCount, s))"
  by pat_completeness auto
termination
  by (relation "measure (\<lambda>(W, s, validatedData, i, savedCount). length validatedData - i)")
    (auto simp: batchSize_def)

declare saveBatches.simps [simp del]

text \<open>\<open>DataFetcher.saveToDatabase\<close>.\<close>

definition saveToDatabase ::
  "world \<Rightarrow> state \<Rightarrow> string \<Rightarrow> json_object list \<Rightarrow> (exn + nat) \<times> state" where
  "saveToDatabase W s symb rs =
     (let normalizedSymbol = trim (toUpperCase symb) in
      if length rs = 0 then (Inr 0, s)
      else let validatedData = validateAndNormalize W normalizedSymbol rs in
        if length validatedData = 0 then (Inr 0, s)
        else saveBatches W s validatedData 0 0)"

text \<open>The result of a sync. A date of the range is \<open>None\<close> when it is an Invalid Date.\<close>

record SyncResult =
  symbol :: string
  recordsFetched :: nat
  recordsSaved :: nat
  dateRange_from :: "int option option"
  dateRange_to :: "int option option"
  errors :: "string list"

text \<open>
  \<open>new Date(Math.min(...times))\<close> and \<open>new Date(Math.max(...times))\<close>: not a number, and
  so an Invalid Date, as soon as one of the dates is invalid.
\<close>

definition minDate :: "int option list \<Rightarrow> int option" where
  "minDate dates =
     (if None \<in> set dates then None else Some (Min (set (map the dates))))"

definition maxDate :: "int option list \<Rightarrow> int option" where
  "maxDate dates =
     (if None \<in> set dates then None else Some (Max (set (map the dates))))"

text \<open>
  \<open>parseISO(d.date)\<close> as \<open>syncStock\<close> calls it, outside the loop of validation: on a
  date that is not a string it throws with date-fns 3 and 4.
\<close>

definition parseISO_arg :: "'a library_scheme \<Rightarrow> jsval \<Rightarrow> exn + int option" where
  "parseISO_arg L v =
     (case v of
        JString s \<Rightarrow> Inr (parseISO L s)
      | _ \<Rightarrow> (case parseISO_nonstring L v of
                None \<Rightarrow> Inr None
              | Some m \<Rightarrow> Inl (TypeError m)))"

text \<open>\<open>historicalData.map((d) => parseISO(d.date))\<close>: the first exception ends the map.\<close>

fun parseDates :: "'a library_scheme \<Rightarrow> json_object list \<Rightarrow> exn + int option list" where
  "parseDates L [] = Inr []"
| "parseDates L (d # rest) =
     (case parseISO_arg L (d ''date'') of
        Inl e \<Rightarrow> Inl e
      | Inr date' \<Rightarrow>
          (case parseDates L rest of
             Inl e \<Rightarrow> Inl e
           | Inr dates \<Rightarrow> Inr (date' # dates)))"

text \<open>
  The date range of the fetched records as \<open>syncStock\<close> computes it: the dates are
  parsed, then \<open>Math.min\<close> and \<open>Math.max\<close> are called with all of them as arguments.
\<close>

definition dateRangeOf ::
  "'a library_scheme \<Rightarrow> json_object list \<Rightarrow> exn + int option \<times> int option" where
  "dateRangeOf L historicalData =
     (case parseDates L historicalData of
        Inl e \<Rightarrow> Inl e
      | Inr dates \<Rightarrow>
          (case spread_fault L (length dates) of
             Some m \<Rightarrow> Inl (RangeError m)
           | None \<Rightarrow> Inr (minDate dates, maxDate dates)))"

text \<open>
  The \<open>try\<close> block of \<open>syncStock\<close>: the exception that leaves it, if any, with the
  \<open>result\<close> object as the block has left it.
\<close>

definition syncStock_try ::
  "world \<Rightarrow> state \<Rightarrow> string \<Rightarrow> int option \<Rightarrow> int option \<Rightarrow> SyncResult
     \<Rightarrow> exn option \<times> SyncResult \<times> state" where
  "syncStock_try W s normalizedSymbol from' to' result =
     (case fetchHistoricalData W s normalizedSymbol from' to' of
        (Inl e, s1) \<Rightarrow> (Some e, result, s1)
      | (Inr historicalData, s1) \<Rightarrow>
          (let result1 = result\<lparr>recordsFetched := length historicalData\<rparr> in
           if length historicalData > 0 then
             (case dateRangeOf W historicalData of
                Inl e \<Rightarrow> (Some e, result1, s1)
              | Inr (from_date, to_date) \<Rightarrow>
                  (let result2 = result1\<lparr>dateRange_from := Some from_date,
                                        dateRange_to := Some to_date\<rparr>
                   in case saveToDatabase W s1 normalizedSymbol historicalData of
                        (Inl e, s2) \<Rightarrow> (Some e, result2, s2)
                      | (Inr n, s2) \<Rightarrow> (None, result2\<lparr>recordsSaved := n\<rparr>, s2)))
           else (None, result1, s1)))"

text \<open>\<open>DataFetcher.syncStock\<close>.\<close>

definition syncStock ::
  "world \<Rightarrow> state \<Rightarrow> string \<Rightarrow> int option \<Rightarrow> int option \<Rightarrow> (exn + SyncResult) \<times> state" where
  "syncStock W s symb from' to' =
     (let normalizedSymbol = trim (toUpperCase symb);
          result = \<lparr> symbol = normalizedSymbol, recordsFetched = 0, recordsSaved = 0,
                     dateRange_from = None, dateRange_to = None, errors = [] \<rparr>
      in case syncStock_try W s normalizedSymbol from' to' result of
           (None, result', s') \<Rightarrow> (Inr (result'\<lparr>errors := []\<rparr>), s')
         | (Some e, result', s') \<Rightarrow> (Inr (result'\<lparr>errors := [getErrorMessage e]\<rparr>), s'))"


section \<open>stockService.ts: the query engine\<close>

definition VALID_TIMEFRAMES :: "string list" where
  "VALID_TIMEFRAMES = [''5Y'', ''1Y'', ''YTD'', ''1M'', ''1W'']"

definition MIN_TRADING_DAYS :: "string \<Rightarrow> nat option" where
  "MIN_TRADING_DAYS tf =
     (if tf = ''5Y'' then Some 1000
      else if tf = ''1Y'' then Some 200
      else if tf = ''YTD'' then Some 1
      else if tf = ''1M'' then Some 15
      else if tf = ''1W'' then Some 3
      else None)"

text \<open>\<open>StockService.isValidTimeframe\<close>.\<close>

definition isValidTimeframe :: "string \<Rightarrow> bool" where
  "isValidTimeframe timeframe = (toUpperCase timeframe \<in> set VALID_TIMEFRAMES)"

text \<open>\<open>StockService.calculateDateRange\<close>.\<close>

definition calculateDateRange :: "world \<Rightarrow> string \<Rightarrow> int \<times> int" where
  "calculateDateRange W timeframe =
     (let tf = toUpperCase timeframe;
          from' = (if tf = ''5Y'' then subYears W (today W) 5
                   else if tf = ''1Y'' then subDays W (today W) 365
                   else if tf = ''YTD'' then startOfYear W (today W)
                   else if tf = ''1M'' then subDays W (today W) 30
                   else if tf = ''1W'' then subDays W (today W) 7
                   else subDays W (today W) 365)
      in (from', today W))"

subsection \<open>The products of the staleness heuristic, as doubles\<close>

text \<open>
  \<open>daysSinceYearStart * 0.7\<close>, \<open>expectedTradingDays * 0.8\<close> and \<open>minDays * 0.8\<close> are
  products of doubles, and whether they are rounded up or down decides comparisons with
  whole numbers (\<open>90 * 0.7\<close> is \<open>62.99999999999999\<close>). The constants are
  \<open>0.7 = 6305039478318694 / 2^53\<close> and \<open>0.8 = 7205759403792794 / 2^53\<close>; the product of
  a whole number with \<open>m / 2^53\<close> is the exact product rounded to 53 significant bits,
  ties to even.
\<close>

fun bitlen :: "nat \<Rightarrow> nat" where
  "bitlen n = (if n = 0 then 0 else Suc (bitlen (n div 2)))"

declare bitlen.simps [simp del]

definition round53 :: "nat \<Rightarrow> nat" where
  "round53 p =
     (let l = bitlen p in
      if l \<le> 53 then p
      else let sh = l - 53;
               q = p div 2 ^ sh;
               r = p mod 2 ^ sh;
               half = 2 ^ (sh - 1)
           in (if half < r \<or> (r = half \<and> odd q) then q + 1 else q) * 2 ^ sh)"

definition double_0_7 :: nat where
  "double_0_7 = 6305039478318694"

definition double_0_8 :: nat where
  "double_0_8 = 7205759403792794"

definition double_mul :: "int \<Rightarrow> nat \<Rightarrow> real" where
  "double_mul i m =
     (if i < 0 then - (real (round53 (nat (- i) * m)) / 2 ^ 53)
      else real (round53 (nat i * m)) / 2 ^ 53)"

subsection \<open>Staleness\<close>

text \<open>
  \<open>StockService.needsDataRefresh\<close>. The clock is read once. The quotients by the
  milliseconds of a day are whole-number divisions: the double quotient has the same
  floor for every date a \<open>Date\<close> can hold within some hundred thousand years of now.
\<close>

definition latestDateOf :: "PrismaStockPrice list \<Rightarrow> int \<Rightarrow> int" where
  "latestDateOf existingData first =
     foldl (\<lambda>mx item. if date item > mx then date item else mx) first existingData"

definition needsDataRefresh :: "world \<Rightarrow> string \<Rightarrow> string \<Rightarrow> PrismaStockPrice list \<Rightarrow> bool" where
  "needsDataRefresh W symb timeframe existingData =
     (let tf = toUpperCase timeframe in
      case existingData of
        [] \<Rightarrow> True
      | item0 # rest \<Rightarrow>
          (let minDays = (case MIN_TRADING_DAYS tf of
                            None \<Rightarrow> 1
                          | Some n \<Rightarrow> if n = 0 then 1 else n);
               tooFew =
                 (if tf = ''YTD'' then
                    (let startOfYr = startOfYear W (now W);
                         daysSinceYearStart = (now W - startOfYr) div msPerDay;
                         expectedTradingDays = \<lfloor>double_mul daysSinceYearStart double_0_7\<rfloor>
                     in real (length existingData) <
                          max 1 (double_mul expectedTradingDays double_0_8))
                  else real (length existingData) < double_mul (int minDays) double_0_8)
           in if tooFew then True
              else (let latestDate = latestDateOf existingData (date item0);
                        daysSinceLatest = (now W - latestDate) div msPerDay
                    in if daysSinceLatest > 3 then True else False)))"

text \<open>
  The staleness decision as the specification words it: no record; or fewer records than
  80% of the minimum expected count of the timeframe, which for YTD is 0.7 times the days
  elapsed this year; or a most recent date more than 3 days before now.
\<close>

definition spec_heuristic :: "world \<Rightarrow> string \<Rightarrow> real" where
  "spec_heuristic W tf =
     (if tf = ''YTD'' then 7 / 10 * real_of_int ((now W - startOfYear W (now W)) div msPerDay)
      else real (the (MIN_TRADING_DAYS tf)))"

definition spec_needsRefresh :: "world \<Rightarrow> string \<Rightarrow> PrismaStockPrice list \<Rightarrow> bool" where
  "spec_needsRefresh W tf existingData =
     (existingData = [] \<or>
      real (length existingData) < 8 / 10 * spec_heuristic W tf \<or>
      3 < (now W - Max (set (map date existingData))) div msPerDay)"

subsection \<open>Database and cache access\<close>

text \<open>
  \<open>StockService.queryDatabase\<close>: \<open>findMany\<close> with the symbol, the date window and
  \<open>orderBy: { date: 'asc' }\<close>.
\<close>

definition queryDatabase ::
  "world \<Rightarrow> state \<Rightarrow> string \<Rightarrow> int \<Rightarrow> int \<Rightarrow> (exn + PrismaStockPrice list) \<times> state" where
  "queryDatabase W s symb from' to' =
     (case db_fault W (tick s) of
        Some m \<Rightarrow>
          (Inl (StockServiceError (''Database query failed: '' @ m) ''DATABASE_ERROR'' (Some symb)),
           step s)
      | None \<Rightarrow>
          (Inr (sort_key date
                  (filter (\<lambda>row. NormalizedPriceData.symbol row = symb \<and>
                                  from' \<le> date row \<and> date row \<le> to') (db s))),
           step s))"

text \<open>\<open>StockService.convertPrismaToStockPriceData\<close>.\<close>

definition convertPrismaToStockPriceData :: "PrismaStockPrice list \<Rightarrow> StockPriceData list" where
  "convertPrismaToStockPriceData prismaData =
     map (\<lambda>item. \<lparr> date = date item, open = open item, high = high item, low = low item,
                    close = close item, volume = volume item, change = change item,
                    changePercent = changePercent item, vwap = vwap item \<rparr>) prismaData"

text \<open>The keys of cache.ts.\<close>

definition buildStockHistoryKey :: "string \<Rightarrow> string \<Rightarrow> string" where
  "buildStockHistoryKey symb timeframe = ''stock:history:'' @ toUpperCase symb @ '':'' @ timeframe"


text \<open>
  \<open>CacheService.getStockHistory\<close>, \<open>setStockHistory\<close>, \<open>getPriceRatio\<close> and
  \<open>setPriceRatio\<close>: \<open>get\<close> gives null and \<open>set\<close> does nothing when the cache is
  unavailable or the operation fails. The entry is stored with the TTL of
  \<open>getTTLForTimeframe\<close>; its expiry is a cache fault of the world.
\<close>

definition cache_getStockHistory ::
  "world \<Rightarrow> state \<Rightarrow> string \<Rightarrow> string \<Rightarrow> StockPriceData list option \<times> state" where
  "cache_getStockHistory W s symb timeframe =
     (if cache_fault W (tick s) then (None, step s)
      else (history_cache s (buildStockHistoryKey symb timeframe), step s))"

definition cache_setStockHistory ::
  "world \<Rightarrow> state \<Rightarrow> string \<Rightarrow> string \<Rightarrow> StockPriceData list \<Rightarrow> state" where
  "cache_setStockHistory W s symb timeframe v =
     (if cache_fault W (tick s) then step s
      else step (s\<lparr>history_cache := (history_cache s)(buildStockHistoryKey symb timeframe \<mapsto> v)\<rparr>))"



subsection \<open>Historical data\<close>

text \<open>
  \<open>StockService.rehydrateDates\<close> turns the date strings and the volume strings of a
  cached entry back into dates and BigInts. An entry of the model holds the dates and
  volumes themselves, so that it maps each item to itself.
\<close>

definition rehydrateDates :: "'a list \<Rightarrow> 'a list" where
  "rehydrateDates cached = map (\<lambda>item. item) cached"

text \<open>
  The third layer of \<open>getHistoricalData\<close>: the sync and the second query, inside the
  \<open>try\<close> whose \<open>catch\<close> keeps the rows of the first query.
\<close>

definition refreshFromApi ::
  "world \<Rightarrow> state \<Rightarrow> string \<Rightarrow> int \<Rightarrow> int \<Rightarrow> PrismaStockPrice list
     \<Rightarrow> PrismaStockPrice list \<times> state" where
  "refreshFromApi W s normalizedSymbol from' to' dbData =
     (case syncStock W s normalizedSymbol (Some from') (Some to') of
        (Inl e, s1) \<Rightarrow> (dbData, s1)
      | (Inr syncResult, s1) \<Rightarrow>
          if length (errors syncResult) = 0 \<and> recordsSaved syncResult > 0 then
            (case queryDatabase W s1 normalizedSymbol from' to' of
               (Inl e, s2) \<Rightarrow> (dbData, s2)
             | (Inr dbData', s2) \<Rightarrow> (dbData', s2))
          else (dbData, s1))"

text \<open>\<open>StockService.getHistoricalData\<close>.\<close>

definition getHistoricalData ::
  "world \<Rightarrow> state \<Rightarrow> string \<Rightarrow> string \<Rightarrow> (exn + StockPriceData list) \<times> state" where
  "getHistoricalData W s symb timeframe =
     (let normalizedSymbol = trim (toUpperCase symb);
          normalizedTimeframe = toUpperCase timeframe
      in if \<not> isValidTimeframe normalizedTimeframe then
           (Inl (StockServiceError
                   (''Invalid timeframe: '' @ timeframe @ ''. Valid values: 5Y, 1Y, YTD, 1M, 1W'')
                   ''INVALID_TIMEFRAME'' (Some normalizedSymbol)), s)
         else
           (case cache_getStockHistory W s normalizedSymbol normalizedTimeframe of
              (cached, s1) \<Rightarrow>
                if cached \<noteq> None \<and> length (the cached) > 0
                then (Inr (rehydrateDates (the cached)), s1)
                else
                  (let (from', to') = calculateDateRange W normalizedTimeframe in
                   case queryDatabase W s1 normalizedSymbol from' to' of
                     (Inl e, s2) \<Rightarrow> (Inl e, s2)
                   | (Inr dbData, s2) \<Rightarrow>
                       (let (dbData', s3) =
                              (if needsDataRefresh W normalizedSymbol normalizedTimeframe dbData
                               then refreshFromApi W s2 normalizedSymbol from' to' dbData
                               else (dbData, s2));
                            result = convertPrismaToStockPriceData dbData'
                        in if length result > 0
                           then (Inr result,
                                 cache_setStockHistory W s3 normalizedSymbol normalizedTimeframe
                                   result)
                           else (Inr result, s3)))))"

subsection \<open>Price ratio\<close>



section \<open>Invariants of the state\<close>

text \<open>
  The table has at most one row for a symbol and a date (index
  \<open>stock_prices_symbol_date_key\<close>), and its dates are calendar days.
\<close>

definition db_ok :: "PrismaStockPrice list \<Rightarrow> bool" where
  "db_ok rows =
     (distinct (map (\<lambda>row. (NormalizedPriceData.symbol row, date row)) rows) \<and>
      (\<forall>row\<in>set rows. date row mod msPerDay = 0))"

text \<open>A series of calendar days, strictly ascending.\<close>

definition hist_ok :: "'a StockPriceData_scheme list \<Rightarrow> bool" where
  "hist_ok xs = (sorted_wrt (<) (map date xs) \<and> (\<forall>x\<in>set xs. date x mod msPerDay = 0))"

text \<open>
  The state that the services maintain: the table as above, and entries of the history
  cache that are series as \<open>getHistoricalData\<close> returns them.
\<close>

definition state_ok :: "state \<Rightarrow> bool" where
  "state_ok s = (db_ok (db s) \<and> (\<forall>xs\<in>ran (history_cache s). hist_ok xs))"

section \<open>Example data\<close>

text \<open>An object literal: the listed properties, every other one undefined.\<close>

definition obj :: "(string \<times> jsval) list \<Rightarrow> json_object" where
  "obj props = (\<lambda>p. case map_of props p of Some v \<Rightarrow> v | None \<Rightarrow> Undefined)"

definition num :: "real \<Rightarrow> jsval" where
  "num x = JNumber (Fin x)"

text \<open>
  A library for a process in UTC with date-fns 3, on the date strings of the examples.
  The results of the arithmetic of the examples are doubles, which rounding leaves as
  they are.
\<close>

definition example_library :: library where
  "example_library =
     \<lparr> parseISO = (\<lambda>s.
          if s = ''2024-01-01'' then Some 1704067200000
          else if s = ''2024-01-02'' then Some 1704153600000
          else if s = ''2024-01-03'' then Some 1704240000000
          else if s = ''2023-03-31'' then Some 1680220800000
          else if s = ''2023-06-30'' then Some 1688083200000
          else if s = ''2023-09-30'' then Some 1696032000000
          else if s = ''2023-12-31'' then Some 1703980800000
          else if s = ''2024-03-31'' then Some 1711843200000
          else if s = ''2024-06-30'' then Some 1719705600000
          else if s = ''2024-09-30'' then Some 1727654400000
          else if s = ''2024-12-31'' then Some 1735603200000
          else None),
       parseISO_nonstring = (\<lambda>v. Some ''dateString.split is not a function''),
       StringToNumber = (\<lambda>s. if s = ''110'' then Fin 110 else NaN),
       round_double = (\<lambda>x. Fin x),
       spread_fault = (\<lambda>n. None) \<rparr>"

text \<open>Raw price records: a complete one, one with the date \<open>invalid\<close>, one with all
  prices zero, one with most fields missing and the close as a string, and one whose
  volume is infinite.\<close>

definition raw_complete :: json_object where
  "raw_complete =
     obj [(''date'', JString ''2024-01-02''), (''open'', num 103), (''high'', num 109),
          (''low'', num 102), (''close'', num 107), (''volume'', num 1200),
          (''change'', num 4), (''changePercent'', num (39 / 10)), (''vwap'', num 106)]"

definition raw_invalid_date :: json_object where
  "raw_invalid_date =
     obj [(''date'', JString ''invalid''), (''open'', num 103), (''high'', num 109),
          (''low'', num 102), (''close'', num 107), (''volume'', num 1200)]"

definition raw_all_zero :: json_object where
  "raw_all_zero =
     obj [(''date'', JString ''2024-01-03''), (''open'', num 0), (''high'', num 0),
          (''low'', num 0), (''close'', num 0), (''volume'', num 5)]"

definition raw_partial :: json_object where
  "raw_partial =
     obj [(''date'', JString ''2024-01-03''), (''open'', Null), (''high'', JString ''n/a''),
          (''close'', JString ''110'')]"

definition raw_infinite_volume :: json_object where
  "raw_infinite_volume =
     obj [(''date'', JString ''2024-01-02''), (''open'', num 103), (''high'', num 109),
          (''low'', num 102), (''close'', num 107), (''volume'', JNumber PosInf)]"

text \<open>The series of test 8 of the service's test script.\<close>

definition price :: "int \<Rightarrow> real \<Rightarrow> int \<Rightarrow> StockPriceData" where
  "price d c v =
     \<lparr> date = d, open = Fin 103, high = Fin 108, low = Fin 99, close = Fin c, volume = v,
       change = Fin 3, changePercent = Fin 3, vwap = Fin 102 \<rparr>"

definition example_old :: "StockPriceData list" where
  "example_old = [price 1704067200000 103 1000, price 1704153600000 106 1100]"

definition example_new :: "StockPriceData list" where
  "example_new = [price 1704153600000 107 1200, price 1704240000000 110 1300]"

text \<open>Eight quarters of key metrics and income statements, newest first.\<close>

definition example_keyMetrics :: "json_object list" where
  "example_keyMetrics =
     map (\<lambda>d. obj [(''date'', JString d), (''peRatio'', num 30)])
       [''2024-12-31'', ''2024-09-30'', ''2024-06-30'', ''2024-03-31'', ''2023-12-31'',
        ''2023-09-30'', ''2023-06-30'', ''2023-03-31'']"

definition example_income :: "json_object list" where
  "example_income =
     [obj [(''date'', JString ''2024-12-31''), (''revenue'', num 60)],
      obj [(''date'', JString ''2024-09-30''), (''revenue'', num 70)],
      obj [(''date'', JString ''2024-06-30''), (''revenue'', num 90)],
      obj [(''date'', JString ''2024-03-31''), (''revenue'', num 125)],
      obj [(''date'', JString ''2023-12-31''), (''revenue'', num 0)],
      obj [(''date'', JString ''2023-09-30''), (''revenue'', Null)],
      obj [(''date'', JString ''2023-06-30''), (''revenue'', num 80)],
      obj [(''date'', JString ''2023-03-31''), (''revenue'', num 100)]]"


text \<open>
  A world on 2024-01-10, 12:00 UTC, for a process in UTC: one outcome for every request,
  the given faults of the database, a cache that is always available.
\<close>

definition example_world :: "http_outcome \<Rightarrow> (nat \<Rightarrow> string option) \<Rightarrow> world" where
  "example_world outcome faults =
     \<lparr> parseISO = parseISO example_library,
       parseISO_nonstring = parseISO_nonstring example_library,
       StringToNumber = StringToNumber example_library,
       round_double = round_double example_library,
       spread_fault = spread_fault example_library,
       apiKey = ''demo'',
       http = (\<lambda>n symb from' to'. outcome),
       db_fault = faults,
       cache_fault = (\<lambda>n. False),
       now = 1704888000000,
       today = 1704844800000,
       startOfYear = (\<lambda>t. 1704067200000),
       subDays = (\<lambda>t n. t - int n * msPerDay),
       subYears = (\<lambda>t n. t - 1826 * msPerDay),
       decimal = (\<lambda>scale x. x) \<rparr>"

definition empty_state :: state where
  "empty_state = \<lparr> db = [], history_cache = Map.empty, ratio_cache = Map.empty, tick = 0 \<rparr>"

text \<open>The API answers with 101 copies of one record; the second transaction fails.\<close>

definition duplicates_world :: world where
  "duplicates_world =
     example_world (Response (BareArray (replicate 101 raw_complete)))
       (\<lambda>n. if n = 2 then Some ''connection lost'' else None)"

text \<open>Stored rows of one symbol, and the rows of the first trading days of 2024 but one.\<close>

definition stored :: "string \<Rightarrow> int \<Rightarrow> real \<Rightarrow> PrismaStockPrice" where
  "stored symb d c =
     \<lparr> date = d, open = Fin c, high = Fin c, low = Fin c, close = Fin c, volume = 1000,
       change = Fin 0, changePercent = Fin 0, vwap = Fin c, NormalizedPriceData.symbol = symb \<rparr>"

definition january_rows :: "PrismaStockPrice list" where
  "january_rows =
     [stored ''AAPL'' 1704153600000 185, stored ''AAPL'' 1704240000000 184,
      stored ''AAPL'' 1704326400000 182, stored ''AAPL'' 1704412800000 181,
      stored ''AAPL'' 1704672000000 185]"

definition quiet_world :: world where
  "quiet_world = example_world (Response (BareArray [])) (\<lambda>n. None)"



text \<open>The table holds the rows of January for AAPL and three rows for MSFT, one of them
  with a close of zero.\<close>

definition january_state :: state where
  "january_state =
     empty_state\<lparr>db := january_rows @
       [stored ''MSFT'' 1704240000000 368, stored ''MSFT'' 1704153600000 370,
        stored ''MSFT'' 1704326400000 0]\<rparr>"





section \<open>Properties\<close>

lemma toUpperCase_5Y: "toUpperCase ''5Y'' = ''5Y''"
  by (simp add: toUpperCase_def upper_char_def)

lemma toUpperCase_1Y: "toUpperCase ''1Y'' = ''1Y''"
  by (simp add: toUpperCase_def upper_char_def)

lemma toUpperCase_YTD: "toUpperCase ''YTD'' = ''YTD''"
  by (simp add: toUpperCase_def upper_char_def)

lemma toUpperCase_1M: "toUpperCase ''1M'' = ''1M''"
  by (simp add: toUpperCase_def upper_char_def)

lemma toUpperCase_1W: "toUpperCase ''1W'' = ''1W''"
  by (simp add: toUpperCase_def upper_char_def)

lemmas toUpperCase_valid =
  toUpperCase_5Y toUpperCase_1Y toUpperCase_YTD toUpperCase_1M toUpperCase_1W

text \<open>
  C9. The cache TTL of each timeframe of the enum is exactly 86400, 43200, 21600, 10800 and
  3600 seconds for 5Y, 1Y, YTD, 1M and 1W, whatever the default TTL of the service is.
\<close>

theorem getTTLForTimeframe_exact:
  "getTTLForTimeframe d ''5Y'' = 86400 \<and>
   getTTLForTimeframe d ''1Y'' = 43200 \<and>
   getTTLForTimeframe d ''YTD'' = 21600 \<and>
   getTTLForTimeframe d ''1M'' = 10800 \<and>
   getTTLForTimeframe d ''1W'' = 3600"
  by (simp add: getTTLForTimeframe_def TIMEFRAME_TTL_def toUpperCase_valid)

subsection \<open>Merge and deduplicate\<close>

lemma distinct_map_sort_key: "distinct (map f (sort_key g xs)) = distinct (map f xs)"
  by (simp add: distinct_map)

lemma strict_sorted_map_unique:
  fixes f :: "'a \<Rightarrow> int"
  assumes "sorted_wrt (<) (map f xs)" and "sorted_wrt (<) (map f ys)" and "set xs = set ys"
  shows "xs = ys"
proof -
  have "map f xs = map f ys"
    using strict_sorted_equal [OF assms(2) assms(1)] assms(3) by simp
  moreover have "inj_on f (set xs \<union> set ys)"
    using assms(1,3) by (simp add: strict_sorted_iff distinct_map)
  ultimately show ?thesis
    by (simp add: inj_on_map_eq_map)
qed

lemma set_update_subset: "set (AList.update k v al) \<subseteq> insert (k, v) (set al)"
  by (induction al) auto

lemma dateKeyed_set: "dateKeyed al \<Longrightarrow> dateKeyed (dateMap_set item al)"
  using set_update_subset [of "getDateKey (date item)" item al]
  by (auto simp: dateKeyed_def dateMap_set_def distinct_update dateEntry_def)

lemma dateKeyed_fold: "dateKeyed al \<Longrightarrow> dateKeyed (fold dateMap_set xs al)"
  by (induction xs arbitrary: al) (simp_all add: dateKeyed_set)

lemma map_of_dateMap_set:
  "map_of (dateMap_set item al) = (map_of al)(getDateKey (date item) \<mapsto> item)"
  by (simp add: dateMap_set_def update_conv')

lemma map_of_fold:
  "map_of (fold dateMap_set xs al) = map_of al ++ map_of (rev (map dateEntry xs))"
proof (induction xs arbitrary: al)
  case Nil
  show ?case by simp
next
  case (Cons x xs)
  have "map_of (fold dateMap_set (x # xs) al) =
          (map_of al)(getDateKey (date x) \<mapsto> x) ++ map_of (rev (map dateEntry xs))"
    using Cons.IH [of "dateMap_set x al"] by (simp only: fold_simps map_of_dateMap_set)
  also have "\<dots> = map_of al ++ map_of (rev (map dateEntry (x # xs)))"
    by (rule ext) (simp add: map_add_def dateEntry_def split: option.splits)
  finally show ?case .
qed

lemma map_of_rev_entries:
  "map_of (rev (map dateEntry xs)) k =
     (if filter (\<lambda>x. getDateKey (date x) = k) xs = [] then None
      else Some (last (filter (\<lambda>x. getDateKey (date x) = k) xs)))"
  by (induction xs) (auto simp: map_add_def dateEntry_def split: option.splits)

lemma dateKeyed_values:
  assumes "dateKeyed al"
  shows "map fst al = map (\<lambda>r. getDateKey (date r)) (map snd al)"
    and "dateEntry ` snd ` set al = set al"
proof -
  have e: "\<And>p. p \<in> set al \<Longrightarrow> p = dateEntry (snd p)"
    using assms by (simp add: dateKeyed_def)
  then have "\<And>p. p \<in> set al \<Longrightarrow> fst p = getDateKey (date (snd p))"
    by (metis dateEntry_def fst_conv)
  then show "map fst al = map (\<lambda>r. getDateKey (date r)) (map snd al)"
    by simp
  show "dateEntry ` snd ` set al = set al"
  proof
    show "dateEntry ` snd ` set al \<subseteq> set al"
      using e by auto
    show "set al \<subseteq> dateEntry ` snd ` set al"
      using e by (metis image_eqI subsetI)
  qed
qed

lemma sorted_values:
  assumes "dateKeyed al"
  shows "distinct (map (\<lambda>r. getDateKey (date r)) (sort_key date (map snd al)))"
    and "sorted_wrt (<) (map date (sort_key date (map snd al)))"
proof -
  have k: "distinct (map (\<lambda>r. getDateKey (date r)) (map snd al))"
    using assms dateKeyed_values(1) [OF assms] by (simp add: dateKeyed_def)
  then show "distinct (map (\<lambda>r. getDateKey (date r)) (sort_key date (map snd al)))"
    by (simp only: distinct_map_sort_key)
  have "distinct (map getDateKey (map date (map snd al)))"
    using k by (simp add: comp_def)
  then have "distinct (map date (map snd al))"
    by (simp only: distinct_map [of getDateKey])
  then have "distinct (map date (sort_key date (map snd al)))"
    by (simp only: distinct_map_sort_key)
  then show "sorted_wrt (<) (map date (sort_key date (map snd al)))"
    by (simp add: strict_sorted_iff)
qed

lemma merge_unfold:
  "mergeAndDeduplicate oldData newData = sort_key date (map snd (mergedMap oldData newData))"
  by (simp add: mergeAndDeduplicate_def mergedMap_def)

lemma dateKeyed_mergedMap: "dateKeyed (mergedMap oldData newData)"
  unfolding mergedMap_def by (intro dateKeyed_fold) (simp add: dateKeyed_def)

lemma map_of_mergedMap:
  "map_of (mergedMap oldData newData) =
     map_of (rev (map dateEntry oldData)) ++ map_of (rev (map dateEntry newData))"
  by (simp add: mergedMap_def map_of_fold)

lemma merge_member:
  "r \<in> set (mergeAndDeduplicate oldData newData) \<longleftrightarrow>
     map_of (mergedMap oldData newData) (getDateKey (date r)) = Some r"
proof -
  have d: "distinct (map fst (mergedMap oldData newData))"
    using dateKeyed_mergedMap by (simp add: dateKeyed_def)
  have "r \<in> set (mergeAndDeduplicate oldData newData) \<longleftrightarrow>
          dateEntry r \<in> set (mergedMap oldData newData)"
    using dateKeyed_values(2) [OF dateKeyed_mergedMap, of oldData newData]
    by (force simp: merge_unfold dateEntry_def)
  then show ?thesis
    using d by (simp add: map_of_eq_Some_iff dateEntry_def)
qed

lemma merge_idem:
  "mergeAndDeduplicate (mergeAndDeduplicate oldData newData) newData =
     mergeAndDeduplicate oldData newData"
proof -
  let ?out = "mergeAndDeduplicate oldData newData"
  let ?A1 = "mergedMap oldData newData"
  let ?A2 = "mergedMap ?out newData"
  have k1: "dateKeyed ?A1" and k2: "dateKeyed ?A2"
    by (rule dateKeyed_mergedMap)+
  have "distinct (map fst (map dateEntry ?out))"
    using sorted_values(1) [OF k1] by (simp add: merge_unfold comp_def dateEntry_def)
  then have dr: "distinct (map fst (rev (map dateEntry ?out)))"
    by (simp add: rev_map [symmetric] del: rev_map)
  have "set (rev (map dateEntry ?out)) = set ?A1"
    using dateKeyed_values(2) [OF k1] by (simp add: merge_unfold)
  then have "map_of (rev (map dateEntry ?out)) = map_of ?A1"
    using dr k1 by (simp add: map_of_inject_set dateKeyed_def)
  then have "map_of ?A2 = map_of ?A1 ++ map_of (rev (map dateEntry newData))"
    by (simp only: map_of_mergedMap [of ?out])
  also have "\<dots> = map_of ?A1"
    by (rule ext) (simp add: map_of_mergedMap [of oldData] map_add_def split: option.splits)
  finally have "map_of ?A2 = map_of ?A1" .
  then have "set ?A2 = set ?A1"
    using k1 k2 by (simp add: map_of_inject_set dateKeyed_def)
  then have "set (map snd ?A2) = set (map snd ?A1)"
    by simp
  then have "set (sort_key date (map snd ?A2)) = set (sort_key date (map snd ?A1))"
    by (simp only: set_sort)
  then show ?thesis
    using sorted_values(2) [OF k1] sorted_values(2) [OF k2]
    by (simp only: merge_unfold [symmetric] strict_sorted_map_unique)
qed

lemma merge_keys:
  "(\<lambda>r. getDateKey (date r)) ` set (mergeAndDeduplicate oldData newData) =
     (\<lambda>r. getDateKey (date r)) ` (set oldData \<union> set newData)"
proof -
  have "(\<lambda>r. getDateKey (date r)) ` set (mergeAndDeduplicate oldData newData) =
          fst ` set (mergedMap oldData newData)"
    using dateKeyed_values(1) [OF dateKeyed_mergedMap, of oldData newData]
    by (metis (no_types, lifting) list.set_map merge_unfold set_sort)
  also have "\<dots> = dom (map_of (mergedMap oldData newData))"
    by (simp add: dom_map_of_conv_image_fst)
  also have "\<dots> = (\<lambda>r. getDateKey (date r)) ` (set oldData \<union> set newData)"
    by (simp add: map_of_mergedMap dom_map_of_conv_image_fst dateEntry_def image_Un image_image
        Un_commute)
  finally show ?thesis .
qed

lemma merge_new_wins:
  assumes "r \<in> set (mergeAndDeduplicate oldData newData)"
  shows "if \<exists>n\<in>set newData. getDateKey (date n) = getDateKey (date r)
         then r = last (filter (\<lambda>n. getDateKey (date n) = getDateKey (date r)) newData)
         else r = last (filter (\<lambda>x. getDateKey (date x) = getDateKey (date r)) oldData)"
proof -
  have m: "(map_of (rev (map dateEntry oldData)) ++ map_of (rev (map dateEntry newData)))
             (getDateKey (date r)) = Some r"
    using assms by (simp add: merge_member map_of_mergedMap)
  show ?thesis
    using m
    by (auto simp: map_add_def map_of_rev_entries filter_empty_conv split: option.splits if_splits)
qed

text \<open>
  C4. With dates compared by their UTC calendar-day key, merging is idempotent in the new
  data; the output is strictly ascending by date and has exactly one record for each
  calendar day of the two inputs; and the record of a day that the new data has is the
  (last) record of the new data for that day, that of any other day the (last) record of
  the old data for it.
\<close>

theorem mergeAndDeduplicate_properties:
  "mergeAndDeduplicate (mergeAndDeduplicate oldData newData) newData =
     mergeAndDeduplicate oldData newData \<and>
   sorted_wrt (<) (map date (mergeAndDeduplicate oldData newData)) \<and>
   distinct (map (\<lambda>r. getDateKey (date r)) (mergeAndDeduplicate oldData newData)) \<and>
   (\<lambda>r. getDateKey (date r)) ` set (mergeAndDeduplicate oldData newData) =
     (\<lambda>r. getDateKey (date r)) ` (set oldData \<union> set newData) \<and>
   (\<forall>r\<in>set (mergeAndDeduplicate oldData newData).
      if \<exists>n\<in>set newData. getDateKey (date n) = getDateKey (date r)
      then r = last (filter (\<lambda>n. getDateKey (date n) = getDateKey (date r)) newData)
      else r = last (filter (\<lambda>x. getDateKey (date x) = getDateKey (date r)) oldData))"
proof (intro conjI ballI)
  show "mergeAndDeduplicate (mergeAndDeduplicate oldData newData) newData =
          mergeAndDeduplicate oldData newData"
    by (rule merge_idem)
  show "sorted_wrt (<) (map date (mergeAndDeduplicate oldData newData))"
    using sorted_values(2) [OF dateKeyed_mergedMap] by (simp only: merge_unfold)
  show "distinct (map (\<lambda>r. getDateKey (date r)) (mergeAndDeduplicate oldData newData))"
    using sorted_values(1) [OF dateKeyed_mergedMap] by (simp only: merge_unfold)
  show "(\<lambda>r. getDateKey (date r)) ` set (mergeAndDeduplicate oldData newData) =
          (\<lambda>r. getDateKey (date r)) ` (set oldData \<union> set newData)"
    by (rule merge_keys)
next
  fix r
  assume "r \<in> set (mergeAndDeduplicate oldData newData)"
  then show "if \<exists>n\<in>set newData. getDateKey (date n) = getDateKey (date r)
      then r = last (filter (\<lambda>n. getDateKey (date n) = getDateKey (date r)) newData)
      else r = last (filter (\<lambda>x. getDateKey (date x) = getDateKey (date r)) oldData)"
    by (rule merge_new_wins)
qed

lemma example_dateKeys:
  "getDateKey 1704067200000 = 19723" "getDateKey 1704153600000 = 19724"
  "getDateKey 1704240000000 = 19725"
  by (simp_all add: getDateKey_def msPerDay_def)

lemma example_mergedMap:
  "mergedMap example_old example_new =
     [(19723, price 1704067200000 103 1000), (19724, price 1704153600000 107 1200),
      (19725, price 1704240000000 110 1300)]"
  by (simp add: mergedMap_def example_old_def example_new_def dateMap_set_def example_dateKeys
      price_def)

lemma example_merge:
  "mergeAndDeduplicate example_old example_new =
     [price 1704067200000 103 1000, price 1704153600000 107 1200, price 1704240000000 110 1300]"
  unfolding merge_unfold example_mergedMap by (simp add: price_def)

theorem mergeAndDeduplicate_properties_witness:
  "price 1704153600000 107 1200 \<in> set (mergeAndDeduplicate example_old example_new) \<and>
   price 1704153600000 107 1200 \<in> set example_new \<and>
   getDateKey (date (price 1704153600000 107 1200)) =
     getDateKey (date (price 1704153600000 106 1100)) \<and>
   price 1704153600000 107 1200 =
     last (filter (\<lambda>n. getDateKey (date n) = getDateKey (date (price 1704153600000 107 1200)))
       example_new) \<and>
   mergeAndDeduplicate (mergeAndDeduplicate example_old example_new) example_new =
     [price 1704067200000 103 1000, price 1704153600000 107 1200, price 1704240000000 110 1300]"
proof -
  note t = mergeAndDeduplicate_properties [of example_old example_new]
  have m: "price 1704153600000 107 1200 \<in> set (mergeAndDeduplicate example_old example_new)"
    by (simp add: example_merge)
  have n: "price 1704153600000 107 1200 \<in> set example_new"
    by (simp add: example_new_def)
  have k: "getDateKey (date (price 1704153600000 107 1200)) =
     getDateKey (date (price 1704153600000 106 1100))"
    by (simp add: price_def)
  have w: "price 1704153600000 107 1200 =
     last (filter (\<lambda>n. getDateKey (date n) = getDateKey (date (price 1704153600000 107 1200)))
       example_new)"
  proof -
    have "\<forall>r\<in>set (mergeAndDeduplicate example_old example_new).
        if \<exists>n\<in>set example_new. getDateKey (date n) = getDateKey (date r)
        then r = last (filter (\<lambda>n. getDateKey (date n) = getDateKey (date r)) example_new)
        else r = last (filter (\<lambda>x. getDateKey (date x) = getDateKey (date r)) example_old)"
      using t by (elim conjE)
    then have c: "if \<exists>n\<in>set example_new.
          getDateKey (date n) = getDateKey (date (price 1704153600000 107 1200))
        then price 1704153600000 107 1200 =
          last (filter (\<lambda>n. getDateKey (date n) =
            getDateKey (date (price 1704153600000 107 1200))) example_new)
        else price 1704153600000 107 1200 =
          last (filter (\<lambda>x. getDateKey (date x) =
            getDateKey (date (price 1704153600000 107 1200))) example_old)"
      using m by (rule bspec)
    have "\<exists>n\<in>set example_new.
        getDateKey (date n) = getDateKey (date (price 1704153600000 107 1200))"
      using n by (rule bexI [rotated]) (rule refl)
    then show ?thesis
      using c by (simp only: if_True)
  qed
  have i: "mergeAndDeduplicate (mergeAndDeduplicate example_old example_new) example_new =
     [price 1704067200000 103 1000, price 1704153600000 107 1200, price 1704240000000 110 1300]"
    using t by (simp only: example_merge)
  show ?thesis
    using m n k w i by (intro conjI)
qed

subsection \<open>Validation of raw price records\<close>

lemma validateNumber_not_NaN: "validateNumber L v (Fin 0) \<noteq> NaN"
  by (simp add: validateNumber_def Let_def)

lemma BigInt_floor:
  "BigInt (Math_floor n) =
     (case n of Fin x \<Rightarrow> Inr \<lfloor>x\<rfloor>
      | _ \<Rightarrow> Inl (RangeError ''The number cannot be converted to a BigInt because it is not an integer''))"
  by (cases n) (simp_all add: BigInt_def Math_floor_def)

lemma normalizeRecord_kept:
  assumes "spec_keeps L r" and "volume_converts L r"
  shows "normalizeRecord L symb r = Inr (Some (normalized L symb r))"
proof -
  obtain x where x: "validateNumber L (r ''volume'') (Fin 0) = Fin x"
    using assms(2) validateNumber_not_NaN [of L "r ''volume''"]
    by (cases "validateNumber L (r ''volume'') (Fin 0)") (auto simp: volume_converts_def)
  obtain d where d: "parseISO_value L (r ''date'') = Some d"
    using assms(1) by (auto simp: spec_keeps_def)
  show ?thesis
    using assms(1) x d
    by (simp add: normalizeRecord_def normalized_def spec_keeps_def BigInt_floor Let_def)
qed

lemma normalizeRecord_dropped:
  assumes "\<not> (spec_keeps L r \<and> volume_converts L r)"
  shows "normalizeRecord L symb r \<noteq> Inr (Some n)"
proof (cases "validateNumber L (r ''volume'') (Fin 0)")
  case NaN
  then show ?thesis using validateNumber_not_NaN [of L "r ''volume''"] by simp
next
  case PosInf
  then show ?thesis
    by (simp add: normalizeRecord_def BigInt_floor split: option.splits)
next
  case NegInf
  then show ?thesis
    by (simp add: normalizeRecord_def BigInt_floor split: option.splits)
next
  case (Fin x)
  then have "volume_converts L r"
    by (simp add: volume_converts_def)
  with assms have "\<not> spec_keeps L r" by simp
  then show ?thesis
    using Fin
    by (auto simp: normalizeRecord_def spec_keeps_def BigInt_floor Let_def split: option.splits)
qed

lemma validateAndNormalize_filter:
  "validateAndNormalize L symb rs =
     map (normalized L symb) (filter (\<lambda>r. spec_keeps L r \<and> volume_converts L r) rs)"
proof (induction rs)
  case Nil
  show ?case by simp
next
  case (Cons r rest)
  show ?case
  proof (cases "spec_keeps L r \<and> volume_converts L r")
    case True
    then show ?thesis
      using Cons.IH by (simp add: normalizeRecord_kept)
  next
    case False
    then have "\<And>n. normalizeRecord L symb r \<noteq> Inr (Some n)"
      by (rule normalizeRecord_dropped)
    then show ?thesis
      using Cons.IH False by (auto split: sum.splits option.splits)
  qed
qed

lemmas example_raw_defs = example_library_def obj_def num_def raw_complete_def
  raw_invalid_date_def raw_all_zero_def raw_partial_def raw_infinite_volume_def

text \<open>
  C6, as the specification states it, fails: a record with a parseable date and non-zero
  prices whose volume is infinite (the JSON number \<open>1e999\<close>) is dropped, because
  \<open>BigInt\<close> throws on it and the \<open>catch\<close> of the loop skips the record.
\<close>

theorem validateAndNormalize_keeps_counterexample:
  "spec_keeps example_library raw_infinite_volume \<and>
   validateAndNormalize example_library ''AAPL'' [raw_infinite_volume] = []"
  by (simp add: example_raw_defs spec_keeps_def truthy_def parseISO_value_def validateNumber_def
      js_Number_def normalizeRecord_def Math_floor_def BigInt_def)

text \<open>
  C6, amended. Validation keeps, in their order, exactly the records that have a parseable
  date, whose volume does not coerce to an infinity, and whose open, high, low and close
  are not all zero; each kept record is stored with its missing or unparseable numeric
  fields coerced to 0. Records with a missing or unparseable date and records with
  all-zero prices are dropped, and what happens to one record does not depend on the
  others of the list.
\<close>

theorem validateAndNormalize_keeps:
  "validateAndNormalize L symb rs =
     map (normalized L symb) (filter (\<lambda>r. spec_keeps L r \<and> volume_converts L r) rs) \<and>
   validateNumber L Undefined (Fin 0) = Fin 0 \<and>
   validateNumber L Null (Fin 0) = Fin 0 \<and>
   (\<forall>v. js_Number L v = NaN \<longrightarrow> validateNumber L v (Fin 0) = Fin 0)"
  by (simp add: validateAndNormalize_filter) (simp add: validateNumber_def)

theorem validateAndNormalize_keeps_witness:
  "validateAndNormalize example_library ''AAPL''
     [raw_complete, raw_invalid_date, raw_all_zero, raw_partial] =
     [\<lparr> date = 1704153600000, open = Fin 103, high = Fin 109, low = Fin 102, close = Fin 107,
        volume = 1200, change = Fin 4, changePercent = Fin (39 / 10), vwap = Fin 106,
        NormalizedPriceData.symbol = ''AAPL'' \<rparr>,
      \<lparr> date = 1704240000000, open = Fin 0, high = Fin 0, low = Fin 0, close = Fin 110,
        volume = 0, change = Fin 0, changePercent = Fin 0, vwap = Fin 0,
        NormalizedPriceData.symbol = ''AAPL'' \<rparr>] \<and>
   js_Number example_library (JString ''n/a'') = NaN \<and>
   validateNumber example_library (JString ''n/a'') (Fin 0) = Fin 0"
proof -
  note t = validateAndNormalize_keeps [of example_library "''AAPL''"
      "[raw_complete, raw_invalid_date, raw_all_zero, raw_partial]"]
  have k: "js_Number example_library (JString ''n/a'') = NaN"
    by (simp add: js_Number_def example_library_def)
  have b: "validateNumber example_library (JString ''n/a'') (Fin 0) = Fin 0"
    using t k by blast
  have a: "validateAndNormalize example_library ''AAPL''
       [raw_complete, raw_invalid_date, raw_all_zero, raw_partial] =
     map (normalized example_library ''AAPL'')
       (filter (\<lambda>r. spec_keeps example_library r \<and> volume_converts example_library r)
          [raw_complete, raw_invalid_date, raw_all_zero, raw_partial])"
    using t by (rule conjunct1)
  show ?thesis
    unfolding a using k b
    by (simp add: example_raw_defs spec_keeps_def volume_converts_def normalized_def truthy_def
        parseISO_value_def validateNumber_def js_Number_def)
qed

subsection \<open>Fundamentals: year-over-year revenue growth\<close>

lemma keyMetricRecords_growth_None:
  "keyMetricRecords L symb m kms = Inr records \<Longrightarrow> \<forall>r\<in>set records. revenueGrowthYoy r = None"
proof (induction kms arbitrary: records)
  case Nil
  then show ?case by simp
next
  case (Cons km rest)
  then show ?case
    by (auto simp: Let_def split: if_splits option.splits sum.splits)
qed

lemma incomeRecords_growth_None:
  "incomeRecords L symb incs = Inr records \<Longrightarrow> \<forall>r\<in>set records. revenueGrowthYoy r = None"
proof (induction incs arbitrary: records)
  case Nil
  then show ?case by simp
next
  case (Cons inc rest)
  then show ?case
    by (auto simp: Let_def split: if_splits option.splits sum.splits)
qed

lemma mergeFundamentals_growth_None:
  assumes "mergeFundamentals L symb keyMetrics incomeData = Inr records"
  shows "\<forall>r\<in>set records. revenueGrowthYoy r = None"
  using assms
  by (auto simp: mergeFundamentals_def split: sum.splits if_splits
      dest: keyMetricRecords_growth_None incomeRecords_growth_None)

lemma mergeFundamentals_sorted:
  assumes "mergeFundamentals L symb keyMetrics incomeData = Inr records"
  shows "sorted (map FundamentalRecord.date records)"
  using assms
  by (auto simp: mergeFundamentals_def split: sum.splits if_splits)

lemma growthAt_eq:
  assumes "revenueGrowthYoy (records ! i) = None"
  shows "growthAt L records i =
     (records ! i)\<lparr>revenueGrowthYoy :=
        (if 4 \<le> i \<and> revenue (records ! i) \<noteq> None \<and> revenue (records ! (i - 4)) \<noteq> None \<and>
            revenue (records ! (i - 4)) \<noteq> Some 0
         then Some (js_mul L
                (js_div L
                   (js_sub L (Number_of_BigInt L (the (revenue (records ! i))))
                      (Number_of_BigInt L (the (revenue (records ! (i - 4))))))
                   (Math_abs (Number_of_BigInt L (the (revenue (records ! (i - 4)))))))
                (Fin 100))
         else None)\<rparr>"
proof -
  have n: "(records ! i)\<lparr>revenueGrowthYoy := None\<rparr> = records ! i"
    using assms by simp
  have idx: "4 \<le> i \<Longrightarrow> nat (int i - 4) = i - 4"
    by simp
  show ?thesis
    using n idx by (auto simp: growthAt_def Let_def)
qed

text \<open>
  C7. For the date-ascending list that \<open>mergeFundamentals\<close> hands to
  \<open>calculateRevenueGrowthYoy\<close>, the record at index \<open>i\<close> comes back with its growth set to
  \<open>(revenue[i] - revenue[i-4]) / |revenue[i-4]| * 100\<close> when \<open>i \<ge> 4\<close>, both revenues are
  known and the prior one is not zero, and with a null growth otherwise: for the first
  four records and for every record whose prior-4 revenue is zero or unknown (or whose
  own revenue is unknown). The formula is evaluated as the code evaluates it, on the
  doubles of the two revenues and with the difference, the quotient and the product each
  rounded to a double. Nothing else of a record changes.
\<close>

theorem revenueGrowthYoy_computed:
  assumes "mergeFundamentals L symb keyMetrics incomeData = Inr records"
  shows "sorted (map FundamentalRecord.date records) \<and>
     length (calculateRevenueGrowthYoy L records) = length records \<and>
     (\<forall>i<length records. calculateRevenueGrowthYoy L records ! i =
        (records ! i)\<lparr>revenueGrowthYoy :=
          (if 4 \<le> i \<and> revenue (records ! i) \<noteq> None \<and> revenue (records ! (i - 4)) \<noteq> None \<and>
              revenue (records ! (i - 4)) \<noteq> Some 0
           then Some (js_mul L
                (js_div L
                   (js_sub L (Number_of_BigInt L (the (revenue (records ! i))))
                      (Number_of_BigInt L (the (revenue (records ! (i - 4))))))
                   (Math_abs (Number_of_BigInt L (the (revenue (records ! (i - 4)))))))
                (Fin 100))
           else None)\<rparr>)"
proof -
  have none: "\<forall>r\<in>set records. revenueGrowthYoy r = None"
    using assms by (rule mergeFundamentals_growth_None)
  have "\<And>i. i < length records \<Longrightarrow> revenueGrowthYoy (records ! i) = None"
    using none by simp
  then show ?thesis
    using mergeFundamentals_sorted [OF assms]
    by (simp add: calculateRevenueGrowthYoy_def growthAt_eq)
qed

lemma example_mergeFundamentals:
  "\<exists>records.
     mergeFundamentals example_library ''AAPL'' example_keyMetrics example_income = Inr records \<and>
     map revenue records =
       [Some 100, Some 80, None, Some 0, Some 125, Some 90, Some 70, Some 60]"
  by (simp add: example_library_def example_keyMetrics_def example_income_def obj_def num_def
      mergeFundamentals_def buildIncomeMap_def truthy_def parseISO_value_def roundedBigInt_def
      nullish_def BigInt_def Math_round_def js_Number_def coalesce_def optField_def)

theorem revenueGrowthYoy_computed_witness:
  "\<exists>records.
     mergeFundamentals example_library ''AAPL'' example_keyMetrics example_income = Inr records \<and>
     map revenue records =
       [Some 100, Some 80, None, Some 0, Some 125, Some 90, Some 70, Some 60] \<and>
     revenueGrowthYoy (calculateRevenueGrowthYoy example_library records ! 0) = None \<and>
     revenueGrowthYoy (calculateRevenueGrowthYoy example_library records ! 3) = None \<and>
     revenueGrowthYoy (calculateRevenueGrowthYoy example_library records ! 4) = Some (Fin 25) \<and>
     revenueGrowthYoy (calculateRevenueGrowthYoy example_library records ! 5) = Some (Fin (25 / 2)) \<and>
     revenueGrowthYoy (calculateRevenueGrowthYoy example_library records ! 6) = None \<and>
     revenueGrowthYoy (calculateRevenueGrowthYoy example_library records ! 7) = None"
proof -
  obtain records where
    h: "mergeFundamentals example_library ''AAPL'' example_keyMetrics example_income = Inr records"
    and rv: "map revenue records =
       [Some 100, Some 80, None, Some 0, Some 125, Some 90, Some 70, Some 60]"
    using example_mergeFundamentals by auto
  have "length (map revenue records) =
      length [Some 100, Some 80, None, Some 0, Some 125, Some 90, Some 70, Some (60 :: int)]"
    by (simp only: rv)
  then have len: "length records = 8"
    by simp
  have r: "revenue (records ! i) =
       [Some 100, Some 80, None, Some 0, Some 125, Some 90, Some 70, Some 60] ! i"
    if "i < 8" for i
  proof -
    have "revenue (records ! i) = map revenue records ! i"
      using len that by simp
    then show ?thesis
      by (simp only: rv)
  qed
  note t = revenueGrowthYoy_computed [OF h]
  have g: "revenueGrowthYoy (calculateRevenueGrowthYoy example_library records ! i) =
        (if 4 \<le> i \<and> revenue (records ! i) \<noteq> None \<and> revenue (records ! (i - 4)) \<noteq> None \<and>
              revenue (records ! (i - 4)) \<noteq> Some 0
           then Some (js_mul example_library
                (js_div example_library
                   (js_sub example_library (Number_of_BigInt example_library (the (revenue (records ! i))))
                      (Number_of_BigInt example_library (the (revenue (records ! (i - 4))))))
                   (Math_abs (Number_of_BigInt example_library (the (revenue (records ! (i - 4)))))))
                (Fin 100))
           else None)"
    if "i < 8" for i
    using t len that by simp
  have first: "revenueGrowthYoy (calculateRevenueGrowthYoy example_library records ! 0) = None"
    using g [of 0] by simp
  have fourth: "revenueGrowthYoy (calculateRevenueGrowthYoy example_library records ! 3) = None"
    using g [of 3] by simp
  have fifth: "revenueGrowthYoy (calculateRevenueGrowthYoy example_library records ! 4) = Some (Fin 25)"
    using g [of 4] r [of 4] r [of 0]
    by (simp add: Number_of_BigInt_def Math_abs_def example_library_def)
  have sixth: "revenueGrowthYoy (calculateRevenueGrowthYoy example_library records ! 5) = Some (Fin (25 / 2))"
    using g [of 5] r [of 5] r [of 1]
    by (simp add: Number_of_BigInt_def Math_abs_def example_library_def)
  have unknown_prior: "revenueGrowthYoy (calculateRevenueGrowthYoy example_library records ! 6) = None"
    using g [of 6] r [of 6] r [of 2] by simp
  have zero_prior: "revenueGrowthYoy (calculateRevenueGrowthYoy example_library records ! 7) = None"
    using g [of 7] r [of 7] r [of 3] by simp
  show ?thesis
    using h rv first fourth fifth sixth unknown_prior zero_prior by simp
qed

subsection \<open>Normalised symbols\<close>

lemma of_char_bound: "(of_char c :: nat) < 256"
proof -
  have "(of_char c :: nat) mod 256 < 256"
    by simp
  then show ?thesis
    by (simp only: of_char_mod_256)
qed

lemma of_char_upper_char:
  "(of_char (upper_char c) :: nat) =
     (if 97 \<le> (of_char c :: nat) \<and> (of_char c :: nat) \<le> 122 then of_char c - 32 else of_char c)"
proof -
  have "(of_char c - 32 :: nat) mod 256 = of_char c - 32"
    using of_char_bound [of c] by (simp add: less_imp_diff_less)
  then show ?thesis
    by (simp add: upper_char_def Let_def)
qed

lemma upper_char_idem: "upper_char (upper_char c) = upper_char c"
proof -
  have "(of_char (upper_char (upper_char c)) :: nat) = of_char (upper_char c)"
    by (auto simp: of_char_upper_char)
  then show ?thesis
    by simp
qed

lemma toUpperCase_idem: "toUpperCase (toUpperCase s) = toUpperCase s"
  by (simp add: toUpperCase_def upper_char_idem)

text \<open>A byte that is no ASCII letter is the upper case of itself only.\<close>

lemma upper_char_caseless:
  assumes "caseless b"
  shows "upper_char c = b \<longleftrightarrow> c = b"
proof
  assume "upper_char c = b"
  then have "(of_char (upper_char c) :: nat) = of_char b"
    by simp
  then have "(of_char c :: nat) = of_char b"
    using assms by (auto simp: of_char_upper_char caseless_def split: if_splits)
  then show "c = b"
    by simp
next
  assume "c = b"
  then have "(of_char (upper_char c) :: nat) = of_char b"
    using assms by (auto simp: of_char_upper_char caseless_def)
  then show "upper_char c = b"
    by simp
qed

lemma toUpperCase_caseless:
  assumes "\<forall>b\<in>set w. caseless b"
  shows "toUpperCase t = w \<longleftrightarrow> t = w"
  using assms
proof (induction t arbitrary: w)
  case Nil
  show ?case by (auto simp: toUpperCase_def)
next
  case (Cons c t)
  show ?case
  proof (cases w)
    case Nil
    then show ?thesis by (simp add: toUpperCase_def)
  next
    case (Cons b w')
    then show ?thesis
      using Cons.IH [of w'] Cons.prems upper_char_caseless [of b c]
      by (auto simp: toUpperCase_def)
  qed
qed

lemma caseless_whiteSpace: "\<forall>w\<in>set whiteSpace. \<forall>b\<in>set w. caseless b"
  by code_simp

lemma caseless_whiteSpace_rev: "\<forall>w\<in>set (map rev whiteSpace). \<forall>b\<in>set w. caseless b"
  using caseless_whiteSpace by simp

lemma nonempty_whiteSpace: "[] \<notin> set whiteSpace"
  by code_simp

lemma nonempty_whiteSpace_rev: "[] \<notin> set (map rev whiteSpace)"
  using nonempty_whiteSpace by auto

lemma stripOne_None: "stripOne ws s = None \<longleftrightarrow> (\<forall>w\<in>set ws. take (length w) s \<noteq> w)"
proof -
  have "stripOne ws s = None \<longleftrightarrow> filter (\<lambda>w. take (length w) s = w) ws = []"
    by (simp add: stripOne_def split: list.splits)
  then show ?thesis
    by (simp add: filter_empty_conv)
qed

lemma stripOne_Some:
  assumes "stripOne ws s = Some rest"
  shows "\<exists>w\<in>set ws. s = w @ rest"
proof -
  obtain w more_ws where f: "filter (\<lambda>w. take (length w) s = w) ws = w # more_ws"
    and r: "rest = drop (length w) s"
    using assms by (auto simp: stripOne_def split: list.splits)
  have "w \<in> set (filter (\<lambda>w. take (length w) s = w) ws)"
    by (simp add: f)
  then have "w \<in> set ws" and "take (length w) s = w"
    by simp_all
  then show ?thesis
    using r by (metis append_take_drop_id)
qed

lemma stripAll_fixed: "stripOne ws s = None \<Longrightarrow> stripAll ws s = s"
  by (simp add: stripAll.simps [of ws s])

lemma stripAll_suffix: "\<exists>p. s = p @ stripAll ws s"
proof (induction ws s rule: stripAll.induct)
  case (1 ws s)
  show ?case
  proof (cases "stripOne ws s")
    case None
    then show ?thesis by (simp add: stripAll_fixed)
  next
    case (Some rest)
    show ?thesis
    proof (cases "length rest < length s")
      case True
      obtain p where "rest = p @ stripAll ws rest"
        using "1.IH" [OF Some True] by blast
      moreover obtain w where "s = w @ rest"
        using stripOne_Some [OF Some] by blast
      ultimately have "s = (w @ p) @ stripAll ws rest"
        by simp
      moreover have "stripAll ws s = stripAll ws rest"
        using Some True by (simp add: stripAll.simps [of ws s])
      ultimately show ?thesis
        by metis
    next
      case False
      then show ?thesis
        using Some by (simp add: stripAll.simps [of ws s])
    qed
  qed
qed

lemma stripAll_done:
  assumes "[] \<notin> set ws"
  shows "stripOne ws (stripAll ws s) = None"
  using assms
proof (induction ws s rule: stripAll.induct)
  case (1 ws s)
  show ?case
  proof (cases "stripOne ws s")
    case None
    then show ?thesis by (simp add: stripAll_fixed)
  next
    case (Some rest)
    obtain w where w: "w \<in> set ws" "s = w @ rest"
      using stripOne_Some [OF Some] by blast
    show ?thesis
    proof (cases "length rest < length s")
      case True
      then show ?thesis
        using "1.IH" [OF Some True "1.prems"] Some by (simp add: stripAll.simps [of ws s])
    next
      case False
      then have "length w = 0"
        using w(2) by simp
      then show ?thesis
        using w(1) "1.prems" by simp
    qed
  qed
qed

lemma stripOne_prefix:
  assumes "stripOne ws (u @ v) = None"
  shows "stripOne ws u = None"
proof -
  have "take (length w) u \<noteq> w" if "w \<in> set ws" for w
  proof
    assume t: "take (length w) u = w"
    then have "length (take (length w) u) = length w"
      by simp
    then have "length w \<le> length u"
      by simp
    then have "take (length w) (u @ v) = w"
      using t by simp
    then show False
      using assms that by (simp add: stripOne_None)
  qed
  then show ?thesis
    by (simp add: stripOne_None)
qed

lemma trim_idem: "trim (trim s) = trim s"
proof -
  let ?t = "stripAll whiteSpace s"
  let ?r = "stripAll (map rev whiteSpace) (rev ?t)"
  have u: "trim s = rev ?r"
    by (simp add: trim_def)
  obtain p where "rev ?t = p @ ?r"
    using stripAll_suffix [of "rev ?t" "map rev whiteSpace"] by blast
  then have "rev (rev ?t) = rev (p @ ?r)"
    by (rule arg_cong)
  then have "?t = rev ?r @ rev p"
    by simp
  moreover have "stripOne whiteSpace ?t = None"
    using nonempty_whiteSpace by (rule stripAll_done)
  ultimately have "stripOne whiteSpace (rev ?r @ rev p) = None"
    by simp
  then have "stripOne whiteSpace (rev ?r) = None"
    by (rule stripOne_prefix)
  then have front: "stripAll whiteSpace (rev ?r) = rev ?r"
    by (rule stripAll_fixed)
  have "stripOne (map rev whiteSpace) ?r = None"
    using nonempty_whiteSpace_rev by (rule stripAll_done)
  then have rear: "stripAll (map rev whiteSpace) ?r = ?r"
    by (rule stripAll_fixed)
  have "trim (rev ?r) = rev (stripAll (map rev whiteSpace) (rev (stripAll whiteSpace (rev ?r))))"
    by (rule trim_def)
  also have "\<dots> = rev ?r"
    by (simp only: front rear rev_rev_ident)
  finally have "trim (rev ?r) = rev ?r" .
  then show ?thesis
    by (simp only: u)
qed

lemma stripOne_toUpperCase:
  assumes "\<forall>w\<in>set ws. \<forall>b\<in>set w. caseless b"
  shows "stripOne ws (toUpperCase s) = map_option toUpperCase (stripOne ws s)"
proof -
  have "take (length w) (toUpperCase s) = w \<longleftrightarrow> take (length w) s = w" if "w \<in> set ws" for w
  proof -
    have "take (length w) (toUpperCase s) = toUpperCase (take (length w) s)"
      by (simp add: toUpperCase_def take_map)
    then show ?thesis
      using toUpperCase_caseless [of w "take (length w) s"] assms that by simp
  qed
  then have "filter (\<lambda>w. take (length w) (toUpperCase s) = w) ws =
      filter (\<lambda>w. take (length w) s = w) ws"
    by (simp cong: filter_cong)
  then show ?thesis
    by (simp add: stripOne_def toUpperCase_def drop_map split: list.splits)
qed

lemma stripAll_toUpperCase:
  assumes "\<forall>w\<in>set ws. \<forall>b\<in>set w. caseless b"
  shows "stripAll ws (toUpperCase s) = toUpperCase (stripAll ws s)"
  using assms
proof (induction ws s rule: stripAll.induct)
  case (1 ws s)
  note so = stripOne_toUpperCase [OF "1.prems", of s]
  show ?case
  proof (cases "stripOne ws s")
    case None
    then show ?thesis
      using so by (simp add: stripAll_fixed)
  next
    case (Some rest)
    have l: "length (toUpperCase rest) = length rest" "length (toUpperCase s) = length s"
      by (simp_all add: toUpperCase_def)
    show ?thesis
    proof (cases "length rest < length s")
      case True
      then show ?thesis
        using "1.IH" [OF Some True "1.prems"] so Some l
        by (simp add: stripAll.simps [of ws s] stripAll.simps [of ws "toUpperCase s"])
    next
      case False
      then show ?thesis
        using so Some l
        by (simp add: stripAll.simps [of ws s] stripAll.simps [of ws "toUpperCase s"])
    qed
  qed
qed

lemma toUpperCase_rev: "toUpperCase (rev s) = rev (toUpperCase s)"
  by (simp add: toUpperCase_def rev_map)

lemma toUpperCase_trim: "toUpperCase (trim s) = trim (toUpperCase s)"
proof -
  note front = stripAll_toUpperCase [OF caseless_whiteSpace]
  note rear = stripAll_toUpperCase [OF caseless_whiteSpace_rev]
  have "trim (toUpperCase s) =
      rev (stripAll (map rev whiteSpace) (rev (toUpperCase (stripAll whiteSpace s))))"
    by (simp only: trim_def front)
  also have "\<dots> = rev (stripAll (map rev whiteSpace) (toUpperCase (rev (stripAll whiteSpace s))))"
    by (simp only: toUpperCase_rev)
  also have "\<dots> = rev (toUpperCase (stripAll (map rev whiteSpace) (rev (stripAll whiteSpace s))))"
    by (simp only: rear)
  also have "\<dots> = toUpperCase (trim s)"
    by (simp only: trim_def toUpperCase_rev)
  finally show ?thesis
    by simp
qed

lemma normalize_idem:
  "trim (toUpperCase (trim (toUpperCase s))) = trim (toUpperCase s)"
  by (simp add: toUpperCase_trim toUpperCase_idem trim_idem)

subsection \<open>Synchronisation\<close>

lemma saveBatches_fails:
  assumes "\<forall>j<k. db_fault W (tick s + j) = None"
    and "db_fault W (tick s + k) = Some m"
    and "i + k * batchSize < length validatedData"
  shows "saveBatches W s validatedData i savedCount =
     (Inl (DataFetcherError (''Database error while saving data: '' @ m) ''DATABASE_ERROR'' None),
      s\<lparr>db := fold (upsert W) (take (k * batchSize) (drop i validatedData)) (db s),
        tick := tick s + k + 1\<rparr>)"
  using assms
proof (induction k arbitrary: s i savedCount)
  case 0
  then show ?case
    by (simp add: saveBatches.simps [of W s validatedData i] step_def)
next
  case (Suc k)
  let ?batch = "take batchSize (drop i validatedData)"
  let ?s = "step (s\<lparr>db := fold (upsert W) ?batch (db s)\<rparr>)"
  have none: "db_fault W (tick s) = None"
    using Suc.prems(1) by (metis add.right_neutral zero_less_Suc)
  have i: "i < length validatedData"
    using Suc.prems(3) by simp
  have unfold: "saveBatches W s validatedData i savedCount =
      saveBatches W ?s validatedData (i + batchSize) (savedCount + length ?batch)"
    using none i by (simp add: saveBatches.simps [of W s validatedData i] Let_def)
  have t: "tick ?s = tick s + 1"
    by (simp add: step_def)
  have a: "\<forall>j<k. db_fault W (tick ?s + j) = None"
    using Suc.prems(1) t by (metis Suc_eq_plus1 Suc_less_eq add_Suc_shift)
  have b: "db_fault W (tick ?s + k) = Some m"
    using Suc.prems(2) t by simp
  have c: "(i + batchSize) + k * batchSize < length validatedData"
    using Suc.prems(3) by (simp add: algebra_simps)
  have split: "take (Suc k * batchSize) (drop i validatedData) =
      ?batch @ take (k * batchSize) (drop (i + batchSize) validatedData)"
    by (simp add: take_add add.commute)
  show ?case
    unfolding unfold Suc.IH [OF a b c] split
    by (simp add: step_def)
qed

lemma fetchHistoricalData_normalized:
  "fetchHistoricalData W s (trim (toUpperCase symb)) from' to' =
     fetchHistoricalData W s symb from' to'"
  by (simp add: fetchHistoricalData_def normalize_idem)

lemma saveToDatabase_normalized:
  "saveToDatabase W s (trim (toUpperCase symb)) rs = saveToDatabase W s symb rs"
  by (simp add: saveToDatabase_def normalize_idem)

lemma fetchHistoricalData_state:
  "snd (fetchHistoricalData W s symb from' to') = s \<or>
   snd (fetchHistoricalData W s symb from' to') = step s"
  by (simp add: fetchHistoricalData_def Let_def split: http_outcome.splits)

lemma fetchHistoricalData_db:
  "fetchHistoricalData W s symb from' to' = (r, s1) \<Longrightarrow> db s1 = db s"
  using fetchHistoricalData_state [of W s symb from' to'] by (auto simp: step_def)




lemma syncStock_save_error:
  assumes "fetchHistoricalData W s symb from' to' = (Inr rs, s1)" and "rs \<noteq> []"
    and "dateRangeOf W rs = Inr (first_date, last_date)"
    and "saveToDatabase W s1 symb rs = (Inl e, s2)"
  shows "syncStock W s symb from' to' =
     (Inr \<lparr> symbol = trim (toUpperCase symb), recordsFetched = length rs, recordsSaved = 0,
            dateRange_from = Some first_date, dateRange_to = Some last_date,
            errors = [getErrorMessage e] \<rparr>, s2)"
  using assms
  by (simp add: syncStock_def syncStock_try_def fetchHistoricalData_normalized
      saveToDatabase_normalized Let_def)


lemma example_symbol: "trim (toUpperCase ''aapl'') = ''AAPL''"
  by code_simp



lemma stored_row_key:
  "NormalizedPriceData.symbol (stored_row W r) = NormalizedPriceData.symbol r"
  "date (stored_row W r) = db_date (date r)"
  by (simp_all add: stored_row_def)

lemma upsert_same: "upsert W r [stored_row W r] = [stored_row W r]"
  by (simp add: stored_row_key)

lemma fold_upsert_replicate:
  "fold (upsert W) (replicate n r) [stored_row W r] = [stored_row W r]"
  by (induction n) (simp_all add: stored_row_key)

lemma fold_upsert_replicate_empty:
  "fold (upsert W) (replicate (Suc n) r) [] = [stored_row W r]"
  using fold_upsert_replicate [of W n r] by simp

lemma example_keeps:
  "spec_keeps duplicates_world raw_complete \<and> volume_converts duplicates_world raw_complete"
  by (simp add: duplicates_world_def example_world_def example_library_def raw_complete_def obj_def num_def
      spec_keeps_def volume_converts_def truthy_def parseISO_value_def validateNumber_def
      js_Number_def)

lemma example_normalized:
  "normalized duplicates_world ''AAPL'' raw_complete =
     \<lparr> date = 1704153600000, open = Fin 103, high = Fin 109, low = Fin 102, close = Fin 107,
       volume = 1200, change = Fin 4, changePercent = Fin (39 / 10), vwap = Fin 106,
       NormalizedPriceData.symbol = ''AAPL'' \<rparr>"
  by (simp add: duplicates_world_def example_world_def example_library_def raw_complete_def obj_def num_def
      normalized_def parseISO_value_def validateNumber_def js_Number_def)

lemma parseDates_replicate:
  assumes "parseISO_arg L (d ''date'') = Inr t"
  shows "parseDates L (replicate n d) = Inr (replicate n t)"
  using assms by (induction n) simp_all

lemma example_dateRange:
  "dateRangeOf duplicates_world (replicate 101 raw_complete) =
     Inr (Some 1704153600000, Some 1704153600000)"
proof -
  have "parseISO_arg duplicates_world (raw_complete ''date'') = Inr (Some 1704153600000)"
    by (simp add: parseISO_arg_def duplicates_world_def example_world_def example_library_def
        raw_complete_def obj_def)
  then have "parseDates duplicates_world (replicate 101 raw_complete) =
      Inr (replicate 101 (Some 1704153600000))"
    by (rule parseDates_replicate)
  moreover have "spread_fault duplicates_world 101 = None"
    by (simp add: duplicates_world_def example_world_def example_library_def)
  ultimately show ?thesis
    by (simp add: dateRangeOf_def minDate_def maxDate_def)
qed

lemma example_validated:
  "validateAndNormalize duplicates_world ''AAPL'' (replicate n raw_complete) =
     replicate n (normalized duplicates_world ''AAPL'' raw_complete)"
  using example_keeps by (simp add: validateAndNormalize_filter)

text \<open>
  C8. The fetch has given the records \<open>rs\<close> and their date range has been computed, so
  that the save is reached; the transactions of the first \<open>k\<close> batches commit and that of
  batch \<open>k + 1\<close> fails with message \<open>m\<close>. Then \<open>saveToDatabase\<close>
  throws a \<open>DATABASE_ERROR\<close>, the table holds the upserts of the first \<open>k\<close> batches of 100
  validated records (no rollback across batches), and \<open>syncStock\<close> returns a result whose
  \<open>errors\<close> is that error and whose \<open>recordsSaved\<close> is 0.
\<close>

theorem syncStock_batch_failure:
  assumes "fetchHistoricalData W s symb from' to' = (Inr rs, s1)"
    and "dateRangeOf W rs = Inr (first_date, last_date)"
    and "\<forall>j<k. db_fault W (tick s1 + j) = None"
    and "db_fault W (tick s1 + k) = Some m"
    and "k * batchSize < length (validateAndNormalize W (trim (toUpperCase symb)) rs)"
  shows "saveToDatabase W s1 symb rs =
       (Inl (DataFetcherError (''Database error while saving data: '' @ m) ''DATABASE_ERROR'' None),
        s1\<lparr>db := fold (upsert W)
                    (take (k * batchSize) (validateAndNormalize W (trim (toUpperCase symb)) rs))
                    (db s),
           tick := tick s1 + k + 1\<rparr>) \<and>
     (\<exists>result.
        syncStock W s symb from' to' =
          (Inr result,
           s1\<lparr>db := fold (upsert W)
                       (take (k * batchSize) (validateAndNormalize W (trim (toUpperCase symb)) rs))
                       (db s),
              tick := tick s1 + k + 1\<rparr>) \<and>
        recordsFetched result = length rs \<and>
        recordsSaved result = 0 \<and>
        dateRange_from result = Some first_date \<and>
        dateRange_to result = Some last_date \<and>
        errors result = [''Database error while saving data: '' @ m])"
proof -
  let ?validated = "validateAndNormalize W (trim (toUpperCase symb)) rs"
  let ?s2 = "s1\<lparr>db := fold (upsert W) (take (k * batchSize) ?validated) (db s),
                 tick := tick s1 + k + 1\<rparr>"
  have d: "db s1 = db s"
    using assms(1) by (rule fetchHistoricalData_db)
  have v: "?validated \<noteq> []"
    using assms(5) by auto
  then have rs: "rs \<noteq> []"
    by auto
  have "saveBatches W s1 ?validated 0 0 =
     (Inl (DataFetcherError (''Database error while saving data: '' @ m) ''DATABASE_ERROR'' None),
      s1\<lparr>db := fold (upsert W) (take (k * batchSize) (drop 0 ?validated)) (db s1),
         tick := tick s1 + k + 1\<rparr>)"
    using assms(3,4,5) by (intro saveBatches_fails) simp_all
  then have sv: "saveToDatabase W s1 symb rs =
     (Inl (DataFetcherError (''Database error while saving data: '' @ m) ''DATABASE_ERROR'' None),
      ?s2)"
    using v rs d by (simp add: saveToDatabase_def Let_def)
  show ?thesis
    using sv syncStock_save_error [OF assms(1) rs assms(2) sv] by simp
qed

theorem syncStock_batch_failure_witness:
  "\<exists>result s'.
     syncStock duplicates_world empty_state ''aapl'' None None = (Inr result, s') \<and>
     recordsFetched result = 101 \<and>
     recordsSaved result = 0 \<and>
     dateRange_from result = Some (Some 1704153600000) \<and>
     errors result = [''Database error while saving data: connection lost''] \<and>
     db s' =
       [\<lparr> date = 1704153600000, open = Fin 103, high = Fin 109, low = Fin 102, close = Fin 107,
          volume = 1200, change = Fin 4, changePercent = Fin (39 / 10), vwap = Fin 106,
          NormalizedPriceData.symbol = ''AAPL'' \<rparr>] \<and>
     tick s' = 3"
proof -
  let ?W = duplicates_world
  let ?rs = "replicate 101 raw_complete"
  have f: "fetchHistoricalData ?W empty_state ''aapl'' None None = (Inr ?rs, step empty_state)"
    by (simp add: fetchHistoricalData_def example_symbol duplicates_world_def example_world_def
        readResponse_def)
  have t1: "tick (step empty_state) = 1"
    by (simp add: step_def empty_state_def)
  have a: "\<forall>j<1. db_fault ?W (tick (step empty_state) + j) = None"
    by (simp add: t1 duplicates_world_def example_world_def)
  have b: "db_fault ?W (tick (step empty_state) + 1) = Some ''connection lost''"
    by (simp add: t1 duplicates_world_def example_world_def)
  have c: "1 * batchSize < length (validateAndNormalize ?W (trim (toUpperCase ''aapl'')) ?rs)"
    by (simp add: example_symbol example_validated batchSize_def)
  note t = syncStock_batch_failure [OF f example_dateRange a b c]
  have rows: "fold (upsert ?W)
      (take (1 * batchSize) (validateAndNormalize ?W (trim (toUpperCase ''aapl'')) ?rs))
      (db empty_state) =
       [\<lparr> date = 1704153600000, open = Fin 103, high = Fin 109, low = Fin 102, close = Fin 107,
          volume = 1200, change = Fin 4, changePercent = Fin (39 / 10), vwap = Fin 106,
          NormalizedPriceData.symbol = ''AAPL'' \<rparr>]"
  proof -
    have batch: "take (1 * batchSize)
          (validateAndNormalize ?W (trim (toUpperCase ''aapl'')) ?rs) =
        replicate (Suc 99) (normalized ?W ''AAPL'' raw_complete)"
      by (simp add: example_symbol example_validated batchSize_def)
    have none: "db empty_state = []"
      by (simp add: empty_state_def)
    show ?thesis
      unfolding batch none fold_upsert_replicate_empty
      by (simp add: example_normalized stored_row_def db_date_def msPerDay_def)
        (simp add: duplicates_world_def example_world_def)
  qed
  from t obtain result where
    r: "syncStock ?W empty_state ''aapl'' None None =
          (Inr result,
           (step empty_state)\<lparr>db := fold (upsert ?W)
             (take (1 * batchSize) (validateAndNormalize ?W (trim (toUpperCase ''aapl'')) ?rs))
             (db empty_state),
              tick := tick (step empty_state) + 1 + 1\<rparr>)"
    and p: "recordsFetched result = length ?rs" "recordsSaved result = 0"
      "dateRange_from result = Some (Some 1704153600000)"
      "errors result = [''Database error while saving data: '' @ ''connection lost'']"
    by blast
  show ?thesis
    using r p rows by (simp add: t1)
qed

subsection \<open>Price ratio: the cache is read before the timeframe is validated\<close>

lemma isValidTimeframe_toUpperCase:
  "isValidTimeframe (toUpperCase timeframe) = isValidTimeframe timeframe"
  by (simp add: isValidTimeframe_def toUpperCase_idem)








subsection \<open>Staleness\<close>

lemma foldl_latest:
  "foldl (\<lambda>mx item. if date item > mx then date item else mx) first existingData =
     Max (insert first (set (map date existingData)))"
proof (induction existingData arbitrary: first)
  case Nil
  show ?case by simp
next
  case (Cons item existingData)
  have "Max (insert (if first < date item then date item else first)
          (set (map date existingData))) =
        Max (insert first (insert (date item) (set (map date existingData))))"
  proof (cases "set (map date existingData) = {}")
    case True
    then show ?thesis by (simp add: max_def)
  next
    case False
    then show ?thesis by (simp add: max_def)
  qed
  then show ?case
    by (simp add: Cons.IH)
qed

lemma latestDateOf_Max:
  "latestDateOf (item0 # rest) (date item0) = Max (set (map date (item0 # rest)))"
  by (simp add: latestDateOf_def foldl_latest)

lemma double_mul_1000: "double_mul 1000 double_0_8 = 800"
  by (simp add: double_mul_def round53_def double_0_8_def bitlen.simps Let_def)

lemma double_mul_200: "double_mul 200 double_0_8 = 160"
  by (simp add: double_mul_def round53_def double_0_8_def bitlen.simps Let_def)

lemma double_mul_15: "double_mul 15 double_0_8 = 12"
  by (simp add: double_mul_def round53_def double_0_8_def bitlen.simps Let_def)

lemma double_mul_3: "double_mul 3 double_0_8 = 1351079888211149 / 562949953421312"
  by (simp add: double_mul_def round53_def double_0_8_def bitlen.simps Let_def)

lemma below_between:
  fixes x :: real
  assumes "2 < x" and "x < 3"
  shows "real n < x \<longleftrightarrow> n \<le> 2"
proof
  assume "real n < x"
  then have "real n < 3" using assms by simp
  then show "n \<le> 2" by simp
next
  assume "n \<le> 2"
  then have "real n \<le> 2" by simp
  then show "real n < x" using assms by simp
qed

lemma tooFew_1W:
  "real n < double_mul 3 double_0_8 \<longleftrightarrow> real n < 8 / 10 * real 3"
proof -
  have "real n < double_mul 3 double_0_8 \<longleftrightarrow> n \<le> 2"
    unfolding double_mul_3 by (rule below_between) simp_all
  moreover have "real n < 8 / 10 * real 3 \<longleftrightarrow> n \<le> 2"
    by (rule below_between) simp_all
  ultimately show ?thesis by simp
qed

lemma below_max_one:
  fixes x :: real
  assumes "0 < n"
  shows "real n < max 1 x \<longleftrightarrow> real n < x"
  using assms by (auto simp: max_def)

lemma january_days:
  "(now quiet_world - startOfYear quiet_world (now quiet_world)) div msPerDay = 9"
  by (simp add: quiet_world_def example_world_def msPerDay_def)

lemma january_expected: "\<lfloor>double_mul 9 double_0_7\<rfloor> = 6"
  by (simp add: double_mul_def round53_def double_0_7_def bitlen.simps Let_def)

lemma january_bound: "double_mul 6 double_0_8 = 5404319552844596 / 1125899906842624"
  by (simp add: double_mul_def round53_def double_0_8_def bitlen.simps Let_def)

lemma january_rows_fresh: "\<not> needsDataRefresh quiet_world ''AAPL'' ''YTD'' january_rows"
  by (simp add: needsDataRefresh_def toUpperCase_YTD MIN_TRADING_DAYS_def january_rows_def
      stored_def latestDateOf_def january_days january_expected january_bound Let_def)
    (simp add: quiet_world_def example_world_def msPerDay_def)

text \<open>
  C2, as the specification words it, does not hold: on 2024-01-10 the year is 9 days old,
  and with 5 stored rows of which the latest is 2 days old the code answers that no
  refresh is needed (\<open>Math.floor(9 * 0.7) * 0.8\<close> is \<open>4.800000000000001\<close>), while 5 is
  below 80% of 0.7 times 9, which is 5.04.
\<close>

theorem needsDataRefresh_counterexample:
  "\<not> needsDataRefresh quiet_world ''AAPL'' ''YTD'' january_rows \<and>
   spec_needsRefresh quiet_world ''YTD'' january_rows"
proof -
  have spec: "spec_needsRefresh quiet_world ''YTD'' january_rows"
    by (simp add: spec_needsRefresh_def spec_heuristic_def january_days january_rows_def)
  show ?thesis
    using january_rows_fresh spec by (rule conjI)
qed

text \<open>
  C2, amended. For a valid timeframe, \<open>needsDataRefresh\<close> is true if and only if the list
  is empty, or the number of records is below the threshold of the timeframe, or the most
  recent date is more than 3 whole days before now. The threshold is 80% of the minimum of
  the timeframe (1000, 200, 15 and 3 for 5Y, 1Y, 1M and 1W); for YTD it is the product, as
  doubles, of 0.8 with the floor of the product, as doubles, of the days elapsed this year
  with 0.7.
\<close>

theorem needsDataRefresh_iff:
  assumes "isValidTimeframe timeframe"
  shows "needsDataRefresh W symb timeframe existingData \<longleftrightarrow>
     existingData = [] \<or>
     real (length existingData) <
       (if toUpperCase timeframe = ''YTD''
        then double_mul
               \<lfloor>double_mul ((now W - startOfYear W (now W)) div msPerDay) double_0_7\<rfloor>
               double_0_8
        else 8 / 10 * real (the (MIN_TRADING_DAYS (toUpperCase timeframe)))) \<or>
     3 < (now W - Max (set (map date existingData))) div msPerDay"
proof (cases existingData)
  case Nil
  then show ?thesis
    by (simp add: needsDataRefresh_def)
next
  case (Cons item0 rest)
  let ?tf = "toUpperCase timeframe"
  let ?n = "length existingData"
  have n: "0 < ?n"
    using Cons by simp
  have nonempty: "existingData \<noteq> []"
    using Cons by simp
  have latest: "latestDateOf existingData (date item0) = Max (set (map date existingData))"
    unfolding Cons by (rule latestDateOf_Max)
  have valid: "?tf = ''5Y'' \<or> ?tf = ''1Y'' \<or> ?tf = ''YTD'' \<or> ?tf = ''1M'' \<or> ?tf = ''1W''"
    using assms by (simp add: isValidTimeframe_def VALID_TIMEFRAMES_def)
  have unfolded: "needsDataRefresh W symb timeframe existingData \<longleftrightarrow>
      (if ?tf = ''YTD''
       then real ?n < max 1 (double_mul
              \<lfloor>double_mul ((now W - startOfYear W (now W)) div msPerDay) double_0_7\<rfloor>
              double_0_8)
       else real ?n < double_mul (int (the (MIN_TRADING_DAYS ?tf))) double_0_8) \<or>
      3 < (now W - Max (set (map date existingData))) div msPerDay"
    using valid latest [symmetric] unfolding Cons
    by (auto simp: needsDataRefresh_def MIN_TRADING_DAYS_def Let_def)
  show ?thesis
  proof (cases "?tf = ''YTD''")
    case True
    show ?thesis
      unfolding unfolded using True nonempty below_max_one [OF n] by simp
  next
    case False
    have "real ?n < double_mul (int (the (MIN_TRADING_DAYS ?tf))) double_0_8 \<longleftrightarrow>
        real ?n < 8 / 10 * real (the (MIN_TRADING_DAYS ?tf))"
      using valid False tooFew_1W [of ?n]
      by (auto simp: MIN_TRADING_DAYS_def double_mul_1000 double_mul_200 double_mul_15)
    then show ?thesis
      unfolding unfolded using False nonempty by simp
  qed
qed

theorem needsDataRefresh_iff_witness:
  "isValidTimeframe ''YTD'' \<and>
   needsDataRefresh quiet_world ''AAPL'' ''YTD'' january_rows = False \<and>
   needsDataRefresh quiet_world ''AAPL'' ''YTD'' (take 4 january_rows) = True \<and>
   needsDataRefresh quiet_world ''AAPL'' ''1W'' (take 2 january_rows) = True"
proof -
  have v: "isValidTimeframe ''YTD''"
    by (simp add: isValidTimeframe_def toUpperCase_YTD VALID_TIMEFRAMES_def)
  have w: "isValidTimeframe ''1W''"
    by (simp add: isValidTimeframe_def toUpperCase_1W VALID_TIMEFRAMES_def)
  note expected = january_expected
  note bound = january_bound
  have five: "needsDataRefresh quiet_world ''AAPL'' ''YTD'' january_rows = False"
    using needsDataRefresh_iff [OF v, of quiet_world "''AAPL''" january_rows]
    by (simp add: toUpperCase_YTD expected bound january_rows_def stored_def
        quiet_world_def example_world_def msPerDay_def)
  have four: "needsDataRefresh quiet_world ''AAPL'' ''YTD'' (take 4 january_rows) = True"
    using needsDataRefresh_iff [OF v, of quiet_world "''AAPL''" "take 4 january_rows"]
    by (simp add: toUpperCase_YTD expected bound january_rows_def stored_def
        quiet_world_def example_world_def msPerDay_def)
  have two: "needsDataRefresh quiet_world ''AAPL'' ''1W'' (take 2 january_rows) = True"
    using needsDataRefresh_iff [OF w, of quiet_world "''AAPL''" "take 2 january_rows"]
    by (simp add: toUpperCase_1W MIN_TRADING_DAYS_def january_rows_def stored_def
        quiet_world_def example_world_def msPerDay_def)
  show ?thesis
    using v five four two by (intro conjI)
qed

subsection \<open>Historical data: strictly ascending dates\<close>

lemma db_date_day: "db_date t mod msPerDay = 0"
  by (simp add: db_date_def)

lemma upsert_keys:
  "map (\<lambda>row. (NormalizedPriceData.symbol row, date row)) (upsert W r rows) =
     (if (NormalizedPriceData.symbol r, db_date (date r)) \<in>
           set (map (\<lambda>row. (NormalizedPriceData.symbol row, date row)) rows)
      then map (\<lambda>row. (NormalizedPriceData.symbol row, date row)) rows
      else map (\<lambda>row. (NormalizedPriceData.symbol row, date row)) rows @
             [(NormalizedPriceData.symbol r, db_date (date r))])"
  by (induction rows) (auto simp: stored_row_key)

lemma upsert_set: "set (upsert W r rows) \<subseteq> insert (stored_row W r) (set rows)"
  by (induction rows) auto

lemma upsert_db_ok:
  assumes "db_ok rows"
  shows "db_ok (upsert W r rows)"
proof -
  have "distinct (map (\<lambda>row. (NormalizedPriceData.symbol row, date row)) (upsert W r rows))"
    using assms unfolding upsert_keys by (simp add: db_ok_def)
  moreover have "date row mod msPerDay = 0" if "row \<in> set (upsert W r rows)" for row
  proof -
    have "row = stored_row W r \<or> row \<in> set rows"
      using that upsert_set [of W r rows] by auto
    then show ?thesis
      using assms by (auto simp: db_ok_def stored_row_key db_date_day)
  qed
  ultimately show ?thesis
    by (simp add: db_ok_def)
qed

lemma fold_upsert_db_ok: "db_ok rows \<Longrightarrow> db_ok (fold (upsert W) batch rows)"
  by (induction batch arbitrary: rows) (simp_all add: upsert_db_ok)

lemma saveBatches_state:
  assumes "saveBatches W s validatedData i savedCount = (r, s')" and "db_ok (db s)"
  shows "db_ok (db s') \<and> history_cache s' = history_cache s"
  using assms
proof (induction W s validatedData i savedCount arbitrary: r s' rule: saveBatches.induct)
  case (1 W s validatedData i savedCount)
  show ?case
  proof (cases "i < length validatedData")
    case False
    then show ?thesis
      using "1.prems" by (simp add: saveBatches.simps [of W s validatedData i])
  next
    case True
    show ?thesis
    proof (cases "db_fault W (tick s)")
      case (Some m)
      then show ?thesis
        using "1.prems" True
        by (auto simp: saveBatches.simps [of W s validatedData i] step_def)
    next
      case None
      let ?batch = "take batchSize (drop i validatedData)"
      let ?s = "step (s\<lparr>db := fold (upsert W) ?batch (db s)\<rparr>)"
      have call: "saveBatches W ?s validatedData (i + batchSize) (savedCount + length ?batch) =
          (r, s')"
        using "1.prems"(1) True None
        by (simp add: saveBatches.simps [of W s validatedData i] Let_def)
      have ok: "db_ok (db ?s)"
        using "1.prems"(2) by (simp add: step_def fold_upsert_db_ok)
      have "db_ok (db s') \<and> history_cache s' = history_cache ?s"
        using True None call ok by (intro "1.IH") simp_all
      then show ?thesis
        by (simp add: step_def)
    qed
  qed
qed

lemma saveToDatabase_state:
  assumes "saveToDatabase W s symb rs = (r, s')" and "db_ok (db s)"
  shows "db_ok (db s') \<and> history_cache s' = history_cache s"
proof (cases "length rs = 0 \<or>
    length (validateAndNormalize W (trim (toUpperCase symb)) rs) = 0")
  case True
  then show ?thesis
    using assms by (auto simp: saveToDatabase_def Let_def split: if_splits)
next
  case False
  then have "saveBatches W s (validateAndNormalize W (trim (toUpperCase symb)) rs) 0 0 = (r, s')"
    using assms(1) by (simp add: saveToDatabase_def Let_def)
  then show ?thesis
    using assms(2) by (rule saveBatches_state)
qed

lemma step_state_ok: "state_ok (step s) = state_ok s"
  by (simp add: state_ok_def step_def)

lemma fetchHistoricalData_state_ok:
  assumes "fetchHistoricalData W s symb from' to' = (r, s1)" and "state_ok s"
  shows "state_ok s1"
  using fetchHistoricalData_state [of W s symb from' to'] assms
  by (auto simp: step_state_ok)

lemma syncStock_state_ok:
  assumes "syncStock W s symb from' to' = (r, s')" and "state_ok s"
  shows "state_ok s'"
proof -
  let ?sym = "trim (toUpperCase symb)"
  obtain r1 s1 where f: "fetchHistoricalData W s ?sym from' to' = (r1, s1)"
    by (cases "fetchHistoricalData W s ?sym from' to'")
  have ok1: "state_ok s1"
    using f assms(2) by (rule fetchHistoricalData_state_ok)
  show ?thesis
  proof (cases r1)
    case (Inl e)
    then show ?thesis
      using assms(1) f ok1 by (auto simp: syncStock_def syncStock_try_def)
  next
    case (Inr rs)
    obtain r2 s2 where sv: "saveToDatabase W s1 ?sym rs = (r2, s2)"
      by (cases "saveToDatabase W s1 ?sym rs")
    have "db_ok (db s2) \<and> history_cache s2 = history_cache s1"
      using sv ok1 by (intro saveToDatabase_state) (simp_all add: state_ok_def)
    then have ok2: "state_ok s2"
      using ok1 by (simp add: state_ok_def)
    have "s' = s1 \<or> s' = s2"
      using assms(1) f Inr sv
      by (auto simp: syncStock_def syncStock_try_def Let_def
          split: if_splits sum.splits prod.splits)
    then show ?thesis
      using ok1 ok2 by auto
  qed
qed

lemma distinct_dates_of_symbol:
  assumes "distinct (map (\<lambda>row. (NormalizedPriceData.symbol row, date row)) rows)"
  shows "distinct (map date (filter (\<lambda>row. NormalizedPriceData.symbol row = symb \<and> Q row) rows))"
  using assms
proof (induction rows)
  case Nil
  show ?case by simp
next
  case (Cons row rows)
  have "date row \<notin> date ` {x \<in> set rows. NormalizedPriceData.symbol x = symb \<and> Q x}"
    if "NormalizedPriceData.symbol row = symb"
  proof
    assume "date row \<in> date ` {x \<in> set rows. NormalizedPriceData.symbol x = symb \<and> Q x}"
    then obtain x where "x \<in> set rows" "NormalizedPriceData.symbol x = symb" "date x = date row"
      by auto
    then have "(NormalizedPriceData.symbol row, date row) \<in>
        (\<lambda>row. (NormalizedPriceData.symbol row, date row)) ` set rows"
      using that by force
    then show False
      using Cons.prems by simp
  qed
  then show ?case
    using Cons by simp
qed

lemma queryDatabase_rows:
  assumes "queryDatabase W s symb from' to' = (Inr rows, s')" and "db_ok (db s)"
  shows "hist_ok rows \<and> s' = step s"
proof -
  let ?found = "filter (\<lambda>row. NormalizedPriceData.symbol row = symb \<and>
      from' \<le> date row \<and> date row \<le> to') (db s)"
  have rows: "rows = sort_key date ?found" and s': "s' = step s"
    using assms(1) by (auto simp: queryDatabase_def split: option.splits)
  have "distinct (map date ?found)"
    using assms(2) by (intro distinct_dates_of_symbol) (simp add: db_ok_def)
  then have "distinct (map date rows)"
    unfolding rows by (simp add: distinct_map_sort_key)
  moreover have "sorted (map date rows)"
    unfolding rows by (rule sorted_sort_key)
  ultimately have "sorted_wrt (<) (map date rows)"
    by (simp add: strict_sorted_iff)
  moreover have "\<forall>x\<in>set rows. date x mod msPerDay = 0"
    using assms(2) unfolding rows by (simp add: db_ok_def)
  ultimately show ?thesis
    using s' by (simp add: hist_ok_def)
qed

lemma refreshFromApi_state:
  assumes "refreshFromApi W s symb from' to' dbData = (rows, s')"
    and "state_ok s" and "hist_ok dbData"
  shows "hist_ok rows \<and> state_ok s'"
proof -
  obtain r1 s1 where sync: "syncStock W s symb (Some from') (Some to') = (r1, s1)"
    by (cases "syncStock W s symb (Some from') (Some to')")
  have ok1: "state_ok s1"
    using sync assms(2) by (rule syncStock_state_ok)
  obtain r2 s2 where q: "queryDatabase W s1 symb from' to' = (r2, s2)"
    by (cases "queryDatabase W s1 symb from' to'")
  have s2: "s2 = step s1"
    using q by (auto simp: queryDatabase_def split: option.splits)
  have ok2: "state_ok s2"
    using ok1 by (simp add: s2 step_state_ok)
  have found: "hist_ok found" if "r2 = Inr found" for found
    using q ok1 that queryDatabase_rows [of W s1 symb from' to' found s2]
    by (simp add: state_ok_def)
  have "(rows = dbData \<and> (s' = s1 \<or> s' = s2)) \<or> (r2 = Inr rows \<and> s' = s2)"
    using assms(1) sync q
    by (auto simp: refreshFromApi_def split: sum.splits if_splits)
  then show ?thesis
    using assms(3) ok1 ok2 found by auto
qed

lemma convertPrismaToStockPriceData_dates:
  "map date (convertPrismaToStockPriceData prismaData) = map date prismaData"
  by (simp add: convertPrismaToStockPriceData_def)

lemma hist_ok_dates:
  "hist_ok xs \<longleftrightarrow>
     sorted_wrt (<) (map date xs) \<and> (\<forall>d\<in>set (map date xs). d mod msPerDay = 0)"
  by (simp add: hist_ok_def)

lemma convertPrismaToStockPriceData_hist_ok:
  "hist_ok (convertPrismaToStockPriceData prismaData) = hist_ok prismaData"
  unfolding hist_ok_dates [of "convertPrismaToStockPriceData prismaData"]
    hist_ok_dates [of prismaData] convertPrismaToStockPriceData_dates ..

lemma cache_setStockHistory_state_ok:
  assumes "state_ok s" and "hist_ok v"
  shows "state_ok (cache_setStockHistory W s symb timeframe v)"
proof -
  have "ran ((history_cache s)(k \<mapsto> v)) \<subseteq> insert v (ran (history_cache s))" for k
    by (auto simp: ran_def split: if_splits)
  then show ?thesis
    using assms by (auto simp: cache_setStockHistory_def state_ok_def step_def)
qed

lemma cache_getStockHistory_state:
  assumes "cache_getStockHistory W s symb timeframe = (cached, s1)" and "state_ok s"
  shows "state_ok s1 \<and> (\<forall>xs. cached = Some xs \<longrightarrow> hist_ok xs)"
proof -
  have "s1 = step s"
    using assms(1) by (auto simp: cache_getStockHistory_def split: if_splits)
  then have "state_ok s1"
    using assms(2) by (simp add: step_state_ok)
  moreover have "hist_ok xs" if "cached = Some xs" for xs
  proof -
    have "history_cache s (buildStockHistoryKey symb timeframe) = Some xs"
      using assms(1) that by (auto simp: cache_getStockHistory_def split: if_splits)
    then have "xs \<in> ran (history_cache s)"
      by (rule ranI)
    then show ?thesis
      using assms(2) by (simp add: state_ok_def)
  qed
  ultimately show ?thesis
    by simp
qed

lemma getHistoricalData_hist_ok:
  assumes "state_ok s" and "getHistoricalData W s symb timeframe = (Inr xs, s')"
  shows "hist_ok xs \<and> state_ok s'"
proof -
  let ?sym = "trim (toUpperCase symb)"
  let ?tf = "toUpperCase timeframe"
  have valid: "isValidTimeframe ?tf"
    using assms(2) by (auto simp: getHistoricalData_def Let_def split: if_splits)
  obtain cached s1 where c: "cache_getStockHistory W s ?sym ?tf = (cached, s1)"
    by (cases "cache_getStockHistory W s ?sym ?tf")
  note c_ok = cache_getStockHistory_state [OF c assms(1)]
  show ?thesis
  proof (cases "cached \<noteq> None \<and> length (the cached) > 0")
    case True
    then have "xs = the cached \<and> s' = s1"
      using assms(2) valid c by (auto simp: getHistoricalData_def Let_def rehydrateDates_def)
    then show ?thesis
      using True c_ok by auto
  next
    case False
    obtain from' to' where range: "calculateDateRange W ?tf = (from', to')"
      by (cases "calculateDateRange W ?tf")
    obtain q s2 where q: "queryDatabase W s1 ?sym from' to' = (q, s2)"
      by (cases "queryDatabase W s1 ?sym from' to'")
    have miss: "getHistoricalData W s symb timeframe =
        (case q of
           Inl e \<Rightarrow> (Inl e, s2)
         | Inr dbData \<Rightarrow>
             (let (dbData', s3) =
                    (if needsDataRefresh W ?sym ?tf dbData
                     then refreshFromApi W s2 ?sym from' to' dbData
                     else (dbData, s2));
                  result = convertPrismaToStockPriceData dbData'
              in if length result > 0
                 then (Inr result, cache_setStockHistory W s3 ?sym ?tf result)
                 else (Inr result, s3)))"
      using valid c False range q by (auto simp: getHistoricalData_def Let_def)
    then obtain dbData where dbData: "q = Inr dbData"
      using assms(2) by (cases q) auto
    have q_ok: "hist_ok dbData \<and> s2 = step s1"
      using q c_ok unfolding dbData by (intro queryDatabase_rows) (simp_all add: state_ok_def)
    then have ok2: "state_ok s2"
      using c_ok by (simp add: step_state_ok)
    obtain rows s3 where third:
      "(if needsDataRefresh W ?sym ?tf dbData
        then refreshFromApi W s2 ?sym from' to' dbData
        else (dbData, s2)) = (rows, s3)"
      by (cases "if needsDataRefresh W ?sym ?tf dbData
        then refreshFromApi W s2 ?sym from' to' dbData
        else (dbData, s2)")
    have rows_ok: "hist_ok rows \<and> state_ok s3"
    proof (cases "needsDataRefresh W ?sym ?tf dbData")
      case True
      then have "refreshFromApi W s2 ?sym from' to' dbData = (rows, s3)"
        using third by simp
      from refreshFromApi_state [OF this ok2] q_ok show ?thesis
        by simp
    next
      case False
      then show ?thesis
        using third ok2 q_ok by simp
    qed
    have result: "xs = convertPrismaToStockPriceData rows \<and>
        (s' = cache_setStockHistory W s3 ?sym ?tf xs \<or> s' = s3)"
      using assms(2) unfolding miss dbData by (auto simp: third Let_def split: if_splits)
    then have "hist_ok xs"
      using rows_ok by (simp add: convertPrismaToStockPriceData_hist_ok)
    moreover from this have "state_ok s'"
      using result rows_ok by (auto simp: cache_setStockHistory_state_ok)
    ultimately show ?thesis
      by simp
  qed
qed

lemma getHistoricalData_error:
  assumes "getHistoricalData W s symb timeframe = (Inl e, s')"
  shows "\<not> isValidTimeframe timeframe \<or> db_fault W (Suc (tick s)) \<noteq> None"
proof (cases "isValidTimeframe timeframe")
  case False
  then show ?thesis by simp
next
  case True
  let ?sym = "trim (toUpperCase symb)"
  let ?tf = "toUpperCase timeframe"
  have valid: "isValidTimeframe ?tf"
    using True by (simp add: isValidTimeframe_toUpperCase)
  obtain cached s1 where c: "cache_getStockHistory W s ?sym ?tf = (cached, s1)"
    by (cases "cache_getStockHistory W s ?sym ?tf")
  then have s1: "tick s1 = Suc (tick s)"
    by (auto simp: cache_getStockHistory_def step_def split: if_splits)
  obtain from' to' where range: "calculateDateRange W ?tf = (from', to')"
    by (cases "calculateDateRange W ?tf")
  obtain q s2 where q: "queryDatabase W s1 ?sym from' to' = (q, s2)"
    by (cases "queryDatabase W s1 ?sym from' to'")
  have "\<exists>e. q = Inl e"
    using assms valid c range q
    by (cases q) (auto simp: getHistoricalData_def Let_def split: if_splits prod.splits)
  then have "db_fault W (tick s1) \<noteq> None"
    using q by (auto simp: queryDatabase_def split: option.splits)
  then show ?thesis
    by (simp add: s1)
qed

lemma example_timeframe_ytd: "toUpperCase ''ytd'' = ''YTD''"
  by code_simp


lemma january_state_ok: "state_ok january_state"
  by (simp add: state_ok_def db_ok_def january_state_def empty_state_def january_rows_def
      stored_def msPerDay_def)

lemma january_query:
  assumes "db s = db january_state" and "db_fault quiet_world (tick s) = None"
  shows "queryDatabase quiet_world s ''AAPL'' 1704067200000 1704844800000 =
     (Inr january_rows, step s)"
  using assms
  by (simp add: queryDatabase_def january_state_def empty_state_def january_rows_def stored_def)

lemma january_history:
  "fst (getHistoricalData quiet_world january_state ''aapl'' ''ytd'') =
     Inr (convertPrismaToStockPriceData january_rows)"
proof -
  have quiet: "\<not> cache_fault quiet_world n" "db_fault quiet_world n = None" for n
    by (simp_all add: quiet_world_def example_world_def)
  have valid: "isValidTimeframe ''YTD''"
    by (simp add: isValidTimeframe_def toUpperCase_YTD VALID_TIMEFRAMES_def)
  have range: "calculateDateRange quiet_world ''YTD'' = (1704067200000, 1704844800000)"
    by (simp add: calculateDateRange_def toUpperCase_YTD quiet_world_def example_world_def)
  have miss: "cache_getStockHistory quiet_world january_state ''AAPL'' ''YTD'' =
      (None, step january_state)"
    by (simp add: cache_getStockHistory_def quiet january_state_def empty_state_def)
  have query: "queryDatabase quiet_world (step january_state) ''AAPL'' 1704067200000
      1704844800000 = (Inr january_rows, step (step january_state))"
    by (rule january_query) (simp_all add: step_def quiet)
  have some: "convertPrismaToStockPriceData january_rows \<noteq> []"
    by (simp add: convertPrismaToStockPriceData_def january_rows_def)
  show ?thesis
    using some
    by (simp add: getHistoricalData_def example_symbol example_timeframe_ytd valid miss range
        query january_rows_fresh Let_def)
qed

text \<open>
  C1. In a state whose table has at most one row for a symbol and a day and whose cached
  series are strictly ascending (as they are when earlier calls have written them), a
  call of \<open>getHistoricalData\<close> that returns a series returns it strictly ascending by
  date, with no date twice, and leaves a state of this kind: on a hit of the cache, from
  the rows of the table, and from the rows queried again after a sync. The call returns a
  series unless the timeframe is invalid or the first query of the table fails.
\<close>

theorem getHistoricalData_strictly_ascending:
  assumes "state_ok s"
  shows "(case getHistoricalData W s symb timeframe of
            (Inr xs, s') \<Rightarrow>
              sorted_wrt (<) (map date xs) \<and> distinct (map date xs) \<and> state_ok s'
          | (Inl e, s') \<Rightarrow>
              \<not> isValidTimeframe timeframe \<or> db_fault W (Suc (tick s)) \<noteq> None)"
proof -
  obtain r s' where call: "getHistoricalData W s symb timeframe = (r, s')"
    by (cases "getHistoricalData W s symb timeframe")
  show ?thesis
  proof (cases r)
    case (Inl e)
    then show ?thesis
      using call getHistoricalData_error [of W s symb timeframe e s'] by simp
  next
    case (Inr xs)
    then have "hist_ok xs \<and> state_ok s'"
      using call assms getHistoricalData_hist_ok [of s W symb timeframe xs s'] by simp
    then show ?thesis
      using call Inr by (simp add: hist_ok_def strict_sorted_iff)
  qed
qed

theorem getHistoricalData_strictly_ascending_witness:
  "\<exists>xs s'. getHistoricalData quiet_world january_state ''aapl'' ''ytd'' = (Inr xs, s') \<and>
     map date xs = [1704153600000, 1704240000000, 1704326400000, 1704412800000, 1704672000000] \<and>
     sorted_wrt (<) (map date xs) \<and> distinct (map date xs) \<and> state_ok s'"
proof -
  let ?xs = "convertPrismaToStockPriceData january_rows"
  obtain s' where call:
    "getHistoricalData quiet_world january_state ''aapl'' ''ytd'' = (Inr ?xs, s')"
    using january_history by (cases "getHistoricalData quiet_world january_state ''aapl'' ''ytd''") simp
  have dates: "map date ?xs =
      [1704153600000, 1704240000000, 1704326400000, 1704412800000, 1704672000000]"
    by (simp add: convertPrismaToStockPriceData_def january_rows_def stored_def)
  have "sorted_wrt (<) (map date ?xs) \<and> distinct (map date ?xs) \<and> state_ok s'"
    using getHistoricalData_strictly_ascending [where s = january_state and W = quiet_world
        and symb = "''aapl''" and timeframe = "''ytd''"] january_state_ok
    unfolding call by simp
  with call dates have
    "getHistoricalData quiet_world january_state ''aapl'' ''ytd'' = (Inr ?xs, s') \<and>
     map date ?xs = [1704153600000, 1704240000000, 1704326400000, 1704412800000, 1704672000000] \<and>
     sorted_wrt (<) (map date ?xs) \<and> distinct (map date ?xs) \<and> state_ok s'"
    by (intro conjI) (rule call, rule dates, simp_all)
  then show ?thesis
    by (intro exI)
qed

subsection \<open>Price ratio: the points\<close>
































end
